theory Spec2Isabelle
  imports Main "HOL-Library.Sublist"
begin

section \<open>JavaScript values used by the application\<close>

text \<open>
  Numbers are integers (\<open>int\<close>): tallies, votes, experience points and timestamps are
  only ever incremented, decremented, compared and divided with \<open>Math.floor\<close>.

  A string that the program trims, lower-cases, searches or uses as a key of the tag
  counts (a body text, a tag, a query, a poll option) is a list of UTF-16 code units
  (\<open>js_string\<close>; a code unit is a number below \<open>2^16\<close>), which is what
  \<open>String.prototype.trim\<close> and \<open>includes\<close> work on. \<open>js\<close> writes such a string from
  its Basic Latin characters. A string that the program only stores, compares or splits
  at a comma (an id, a response text, a colour) is a byte string (\<open>string\<close>).
\<close>

type_synonym js_string = "nat list"

definition js :: "string \<Rightarrow> js_string" where
  "js s = map of_char s"

datatype js_error = Error string | SyntaxError string | TypeError string

text \<open>\<open>console.error(label, error)\<close>: one entry of the console.\<close>

datatype 'e log_entry = ConsoleError string 'e

text \<open>
  \<open>String.prototype.trim\<close> removes the code units of ECMAScript's \<open>WhiteSpace\<close> and
  \<open>LineTerminator\<close> from both ends: TAB, LF, VT, FF, CR, SP, NBSP, U+1680,
  U+2000 to U+200A, LS, PS, U+202F, U+205F, U+3000 and U+FEFF. Each is one code unit.
\<close>

definition is_whitespace :: "nat \<Rightarrow> bool" where
  "is_whitespace c =
     (c \<in> set [0x0009, 0x000A, 0x000B, 0x000C, 0x000D, 0x0020, 0x00A0, 0x1680,
                0x2000, 0x2001, 0x2002, 0x2003, 0x2004, 0x2005, 0x2006, 0x2007, 0x2008,
                0x2009, 0x200A, 0x2028, 0x2029, 0x202F, 0x205F, 0x3000, 0xFEFF])"

definition trim :: "js_string \<Rightarrow> js_string" where
  "trim s = rev (dropWhile is_whitespace (rev (dropWhile is_whitespace s)))"


section \<open>types.ts\<close>

datatype ReactionType = Love | Funny | Sad | Shock | Fire

datatype PostType = TextPost | PollPost | VideoPost

datatype Sentiment = Happy | SadMood | Angry | FunnyMood | Neutral | Romantic

record PollOption =
  opt_id :: string
  opt_text :: js_string
  votes :: int

record Avatar =
  name :: string
  color :: string
  icon :: string

record Comment =
  comment_id :: string
  comment_text :: string
  comment_timestamp :: int
  comment_authorAvatar :: Avatar

text \<open>\<open>Record<ReactionType, number>\<close>: one tally per reaction kind.\<close>

record Reactions =
  love :: int
  funny :: int
  sad :: int
  shock :: int
  fire :: int

fun tally :: "Reactions \<Rightarrow> ReactionType \<Rightarrow> int" where
  "tally r Love = love r"
| "tally r Funny = funny r"
| "tally r Sad = sad r"
| "tally r Shock = shock r"
| "tally r Fire = fire r"

fun set_tally :: "Reactions \<Rightarrow> ReactionType \<Rightarrow> int \<Rightarrow> Reactions" where
  "set_tally r Love n = r\<lparr>love := n\<rparr>"
| "set_tally r Funny n = r\<lparr>funny := n\<rparr>"
| "set_tally r Sad n = r\<lparr>sad := n\<rparr>"
| "set_tally r Shock n = r\<lparr>shock := n\<rparr>"
| "set_tally r Fire n = r\<lparr>fire := n\<rparr>"

record Confession =
  conf_id :: string
  conf_type :: PostType
  conf_text :: js_string
  image :: "string option"
  audio :: "string option"
  video :: "string option"
  pollOptions :: "PollOption list option"
  timestamp :: int
  authorAvatar :: Avatar
  reactions :: Reactions
  comments :: "Comment list"
  tags :: "js_string list"
  sentiment :: Sentiment
  emoji :: string
  colorTheme :: string
  isSafe :: bool
  flagReason :: "string option"

text \<open>
  \<open>UserSessionData\<close>. \<open>reactedPosts\<close> and \<open>votedPolls\<close> are objects used as
  dictionaries from post id to the reaction kind, respectively to the chosen option id;
  they are modelled as maps of their own properties. The handlers read \<open>votedPolls\<close>
  through \<open>?.\<close> and \<open>|| {}\<close>, so a session without that field is a value of the
  model (\<open>None\<close>). A read of a key that names a member inherited from
  \<open>Object.prototype\<close> and is not an own property is outside this model; the ids that
  the program generates (\<open>generated_id\<close> below) are never such names.
\<close>

record UserSessionData =
  avatar :: Avatar
  xp :: int
  level :: int
  reactedPosts :: "string \<rightharpoonup> ReactionType"
  votedPolls :: "(string \<rightharpoonup> string) option"

text \<open>The argument of \<open>handlePost\<close>: a confession without the fields the handler fills in.\<close>

record PostData =
  post_type :: PostType
  post_text :: js_string
  post_image :: "string option"
  post_audio :: "string option"
  post_video :: "string option"
  post_pollOptions :: "PollOption list option"
  post_tags :: "js_string list"
  post_sentiment :: Sentiment
  post_emoji :: string
  post_colorTheme :: string
  post_isSafe :: bool
  post_flagReason :: "string option"

text \<open>The fields of \<open>Partial<Confession>\<close> that \<open>updateConfession\<close> reads.\<close>

record ConfessionUpdates =
  upd_reactions :: "Reactions option"
  upd_comments :: "Comment list option"
  upd_pollOptions :: "PollOption list option"

section \<open>App.tsx: the view-model\<close>

datatype Tab = Home | Search | Matchmaker | Profile

text \<open>
  The state the handlers read and write: the confession list, the session, the active
  tab, and the alerts shown to the user (\<open>window.alert\<close>), oldest first.
\<close>

record AppState =
  confessions :: "Confession list"
  userSession :: UserSessionData
  activeTab :: Tab
  alerts :: "string list"

text \<open>
  The remote data-access module as the handlers see it: \<open>insertConfession\<close> and
  \<open>updateConfession\<close> each answer with a success flag.
\<close>

record Remote =
  insertConfession_result :: "Confession \<Rightarrow> bool"
  updateConfession_result :: "string \<Rightarrow> ConfessionUpdates \<Rightarrow> bool"

definition addXP :: "int \<Rightarrow> UserSessionData \<Rightarrow> UserSessionData" where
  "addXP amount prev =
     (let newXP = xp prev + amount;
          newLevel = newXP div 100 + 1
      in prev\<lparr>xp := newXP, level := newLevel\<rparr>)"

text \<open>
  \<open>handlePost\<close>. \<open>newId\<close> is the random id and \<open>now\<close> is \<open>Date.now()\<close>. The
  optimistic insertion into the list is commented out in the source, so the list is
  only touched on failure, by the filter that removes the new id.
\<close>

definition newConfession_of :: "string \<Rightarrow> int \<Rightarrow> Avatar \<Rightarrow> PostData \<Rightarrow> Confession" where
  "newConfession_of newId now av newPostData =
     \<lparr>conf_id = newId, conf_type = post_type newPostData, conf_text = post_text newPostData,
      image = post_image newPostData, audio = post_audio newPostData,
      video = post_video newPostData, pollOptions = post_pollOptions newPostData,
      timestamp = now, authorAvatar = av,
      reactions = \<lparr>love = 0, funny = 0, sad = 0, shock = 0, fire = 0\<rparr>,
      comments = [], tags = post_tags newPostData, sentiment = post_sentiment newPostData,
      emoji = post_emoji newPostData, colorTheme = post_colorTheme newPostData,
      isSafe = post_isSafe newPostData, flagReason = post_flagReason newPostData\<rparr>"

definition handlePost :: "Remote \<Rightarrow> string \<Rightarrow> int \<Rightarrow> PostData \<Rightarrow> AppState \<Rightarrow> AppState" where
  "handlePost remote newId now newPostData s =
     (let newConfession = newConfession_of newId now (avatar (userSession s)) newPostData;
          success = insertConfession_result remote newConfession
      in if \<not> success
         then s\<lparr>confessions := filter (\<lambda>c. conf_id c \<noteq> conf_id newConfession) (confessions s),
                 alerts := alerts s @ [''Failed to post confession. Please try again.'']\<rparr>
         else s\<lparr>userSession := addXP 20 (userSession s), activeTab := Home\<rparr>)"

text \<open>
  \<open>handleReact\<close>. The answer of \<open>updateConfession\<close> is awaited and not looked at.
\<close>

definition handleReact :: "Remote \<Rightarrow> string \<Rightarrow> ReactionType \<Rightarrow> AppState \<Rightarrow> AppState" where
  "handleReact remote pid rtype s =
     (case find (\<lambda>c. conf_id c = pid) (confessions s) of
        None \<Rightarrow> s
      | Some confession \<Rightarrow>
          if reactedPosts (userSession s) pid = Some rtype
          then
            let newSession = (userSession s)\<lparr>reactedPosts := (reactedPosts (userSession s))(pid := None)\<rparr>;
                updatedReactions =
                  set_tally (reactions confession) rtype
                    (max 0 (tally (reactions confession) rtype - 1));
                ignored = updateConfession_result remote pid
                  \<lparr>upd_reactions = Some updatedReactions, upd_comments = None, upd_pollOptions = None\<rparr>
            in s\<lparr>userSession := newSession,
                 confessions := map (\<lambda>c. if conf_id c = pid then c\<lparr>reactions := updatedReactions\<rparr> else c)
                                  (confessions s)\<rparr>
          else
            let oldType = reactedPosts (userSession s) pid;
                newSession = (userSession s)\<lparr>reactedPosts := (reactedPosts (userSession s))(pid \<mapsto> rtype)\<rparr>;
                session' = (if oldType = None then addXP 2 newSession else newSession);
                decremented =
                  (case oldType of
                     None \<Rightarrow> reactions confession
                   | Some old \<Rightarrow>
                       set_tally (reactions confession) old
                         (max 0 (tally (reactions confession) old - 1)));
                updatedReactions = set_tally decremented rtype (tally decremented rtype + 1);
                ignored = updateConfession_result remote pid
                  \<lparr>upd_reactions = Some updatedReactions, upd_comments = None, upd_pollOptions = None\<rparr>
            in s\<lparr>userSession := session',
                 confessions := map (\<lambda>c. if conf_id c = pid then c\<lparr>reactions := updatedReactions\<rparr> else c)
                                  (confessions s)\<rparr>)"

text \<open>\<open>handleComment\<close>. \<open>newId\<close> is the random comment id, \<open>now\<close> is \<open>Date.now()\<close>.\<close>

definition handleComment :: "Remote \<Rightarrow> string \<Rightarrow> int \<Rightarrow> string \<Rightarrow> string \<Rightarrow> AppState \<Rightarrow> AppState" where
  "handleComment remote newId now pid body s =
     (case find (\<lambda>c. conf_id c = pid) (confessions s) of
        None \<Rightarrow> s
      | Some confession \<Rightarrow>
          let newComment = \<lparr>comment_id = newId, comment_text = body, comment_timestamp = now,
                            comment_authorAvatar = avatar (userSession s)\<rparr>;
              updatedComments = comments confession @ [newComment];
              ignored = updateConfession_result remote pid
                \<lparr>upd_reactions = None, upd_comments = Some updatedComments, upd_pollOptions = None\<rparr>
          in s\<lparr>confessions := map (\<lambda>c. if conf_id c = pid then c\<lparr>comments := updatedComments\<rparr> else c)
                                (confessions s),
               userSession := addXP 5 (userSession s)\<rparr>)"

text \<open>
  \<open>handleVote\<close>. The guard \<open>if (userSession.votedPolls?.[confessionId]) return\<close> tests
  the stored option id for truthiness: a stored id that is the empty string does not
  stop the handler.
\<close>

definition votedPolls_or_empty :: "UserSessionData \<Rightarrow> (string \<rightharpoonup> string)" where
  "votedPolls_or_empty u = (case votedPolls u of None \<Rightarrow> Map.empty | Some m \<Rightarrow> m)"

definition has_voted :: "UserSessionData \<Rightarrow> string \<Rightarrow> bool" where
  "has_voted u confessionId =
     (case votedPolls_or_empty u confessionId of None \<Rightarrow> False | Some optionId \<Rightarrow> optionId \<noteq> [])"

definition handleVote :: "Remote \<Rightarrow> string \<Rightarrow> string \<Rightarrow> AppState \<Rightarrow> AppState" where
  "handleVote remote confessionId optionId s =
     (if has_voted (userSession s) confessionId then s
      else
        case find (\<lambda>c. conf_id c = confessionId) (confessions s) of
          None \<Rightarrow> s
        | Some confession \<Rightarrow>
            (case pollOptions confession of
               None \<Rightarrow> s
             | Some opts \<Rightarrow>
                 let newSession = (userSession s)
                       \<lparr>votedPolls := Some ((votedPolls_or_empty (userSession s))(confessionId \<mapsto> optionId))\<rparr>;
                     updatedPollOptions =
                       map (\<lambda>opt. if opt_id opt = optionId then opt\<lparr>votes := votes opt + 1\<rparr> else opt) opts;
                     ignored = updateConfession_result remote confessionId
                       \<lparr>upd_reactions = None, upd_comments = None,
                        upd_pollOptions = Some updatedPollOptions\<rparr>
                 in s\<lparr>userSession := addXP 5 newSession,
                      confessions := map (\<lambda>c. if conf_id c = confessionId
                                                then c\<lparr>pollOptions := Some updatedPollOptions\<rparr> else c)
                                       (confessions s)\<rparr>))"

text \<open>
  The derived views. \<open>reactionsTotal\<close> is the sum the "popular" ordering computes
  (\<open>Object.values(a.reactions).reduce((x, y) => x + y, 0)\<close>).
\<close>

definition reactionsTotal :: "Reactions \<Rightarrow> int" where
  "reactionsTotal r = love r + funny r + sad r + shock r + fire r"


text \<open>
  \<open>trendingTags\<close> counts the tags in a plain object and sorts \<open>Object.entries\<close> of it.
  The object is modelled by its own properties in creation order. \<open>Object.entries\<close>
  enumerates the keys that are array indices (canonical decimal numerals below
  \<open>2^32 - 1\<close>) first, in ascending numeric order, and then the other keys in creation
  order.
\<close>

type_synonym counts_object = "(js_string \<times> int) list"

definition obj_get :: "counts_object \<Rightarrow> js_string \<Rightarrow> int option" where
  "obj_get obj k = map_of obj k"

fun obj_set :: "counts_object \<Rightarrow> js_string \<Rightarrow> int \<Rightarrow> counts_object" where
  "obj_set [] k v = [(k, v)]"
| "obj_set ((k', v') # kvs) k v = (if k' = k then (k, v) # kvs else (k', v') # obj_set kvs k v)"

definition digit_value :: "nat \<Rightarrow> int option" where
  "digit_value c = (if 0x30 \<le> c \<and> c \<le> 0x39 then Some (int c - 0x30) else None)"

definition decimal_value :: "js_string \<Rightarrow> int" where
  "decimal_value s = foldl (\<lambda>acc c. 10 * acc + (case digit_value c of None \<Rightarrow> 0 | Some d \<Rightarrow> d)) 0 s"

definition is_array_index :: "js_string \<Rightarrow> bool" where
  "is_array_index s =
     (s \<noteq> [] \<and> list_all (\<lambda>c. digit_value c \<noteq> None) s
      \<and> (s = [0x30] \<or> hd s \<noteq> 0x30) \<and> decimal_value s < 4294967295)"

definition Object_entries :: "counts_object \<Rightarrow> (js_string \<times> int) list" where
  "Object_entries obj =
     sort_key (\<lambda>e. decimal_value (fst e)) (filter (\<lambda>e. is_array_index (fst e)) obj)
     @ filter (\<lambda>e. \<not> is_array_index (fst e)) obj"

text \<open>
  \<open>Array.prototype.sort\<close> with a comparator is stable: elements that compare equal
  keep their order. Insertion sort is the model.
\<close>

fun insert_by :: "('a \<Rightarrow> 'a \<Rightarrow> int) \<Rightarrow> 'a \<Rightarrow> 'a list \<Rightarrow> 'a list" where
  "insert_by cmp x [] = [x]"
| "insert_by cmp x (y # ys) = (if cmp x y \<le> 0 then x # y # ys else y # insert_by cmp x ys)"

definition js_sort :: "('a \<Rightarrow> 'a \<Rightarrow> int) \<Rightarrow> 'a list \<Rightarrow> 'a list" where
  "js_sort cmp xs = foldr (insert_by cmp) xs []"

text \<open>
  The members that every plain object inherits from \<open>Object.prototype\<close>: eleven
  methods and the accessor \<open>__proto__\<close>. All of them are truthy when read.
\<close>

definition Object_prototype_methods :: "string list" where
  "Object_prototype_methods =
     [''constructor'', ''__defineGetter__'', ''__defineSetter__'', ''hasOwnProperty'',
      ''__lookupGetter__'', ''__lookupSetter__'', ''isPrototypeOf'', ''propertyIsEnumerable'',
      ''toString'', ''valueOf'', ''toLocaleString'']"

definition Object_prototype_names :: "string list" where
  "Object_prototype_names = ''__proto__'' # Object_prototype_methods"

text \<open>
  One step of \<open>tags.forEach(t => counts[t] = (counts[t] || 0) + 1)\<close>. The read
  \<open>counts[t]\<close> gives the own property when there is one, else the inherited member when
  \<open>t\<close> names one, else \<open>undefined\<close>.
  \<^item> For \<open>__proto__\<close> the read gives the prototype object, the sum is a string, and the
    assignment goes to the inherited setter, which ignores a string: the object is
    unchanged and the tag is never counted.
  \<^item> For an inherited method the read gives a function, the sum is a string, and the
    assignment stores that string as an own property: the entry has no numeric count,
    and the comparator of the sort yields \<open>NaN\<close> on it, which is in general no
    consistent ordering (the order that \<open>Array.prototype.sort\<close> then produces is
    implementation-defined). Such a counting object is outside the model: the counting
    object is \<open>None\<close> from there on, and so is the result of \<open>trendingTags\<close>.
\<close>

definition count_step :: "counts_object option \<Rightarrow> js_string \<Rightarrow> counts_object option" where
  "count_step state t =
     (case state of
        None \<Rightarrow> None
      | Some counts \<Rightarrow>
          (case obj_get counts t of
             Some n \<Rightarrow> Some (obj_set counts t ((if n = 0 then 0 else n) + 1))
           | None \<Rightarrow>
               if t = js ''__proto__'' then Some counts
               else if t \<in> set (map js Object_prototype_methods) then None
               else Some (obj_set counts t (0 + 1))))"

definition count_tags :: "js_string list \<Rightarrow> counts_object option" where
  "count_tags ts = foldl count_step (Some []) ts"

text \<open>\<open>confessions.flatMap(c => c.tags)\<close>\<close>

definition flat_tags :: "Confession list \<Rightarrow> js_string list" where
  "flat_tags cs = concat (map tags cs)"

definition trendingTags :: "Confession list \<Rightarrow> js_string list option" where
  "trendingTags cs =
     (let ts = flat_tags cs
      in case count_tags ts of
           None \<Rightarrow> None
         | Some counts \<Rightarrow>
             Some (map fst (take 10 (js_sort (\<lambda>a b. snd b - snd a) (Object_entries counts)))))"

section \<open>services/geminiService.ts\<close>

text \<open>
  \<open>JSON.parse\<close> yields an untyped value; the cast \<open>as AIAnalysisResult\<close> checks
  nothing at run time, so the result of \<open>analyzeConfession\<close> is a JSON value.
\<close>

datatype json = JNull | JBool bool | JNum int | JStr string | JArr "json list" | JObj "(string \<times> json) list"

datatype part = TextPart string | InlineData string string

record GenerateContentResponse =
  response_text :: "string option"

definition prompt :: string where
  "prompt = concat (map (\<lambda>l. CHR 0x0A # ''      '' @ l)
     [''Analyze this university student confession.'',
      ''1. Check if the content is safe (no hate speech, severe bullying, explicit NSFW, or self-harm). Set isSafe to true or false.'',
      ''2. Determine the sentiment (happy, sad, angry, funny, neutral, romantic).'',
      ''3. Choose a single emoji that best represents the mood.'',
      ''4. Generate 3 short, relevant tags (hashtags without the #).'',
      ''5. Suggest a vibrant hex color code that matches the mood.'']) @ CHR 0x0A # ''    ''"

text \<open>\<open>s.split(sep)\<close> for a one-character separator.\<close>

fun split_on :: "char \<Rightarrow> string \<Rightarrow> string list" where
  "split_on sep [] = [[]]"
| "split_on sep (c # cs) =
     (if c = sep then [] # split_on sep cs
      else (case split_on sep cs of [] \<Rightarrow> [[c]] | w # ws \<Rightarrow> (c # w) # ws))"

text \<open>\<open>imageBase64.split(',')[1] || imageBase64\<close>\<close>

definition cleanBase64_of :: "string \<Rightarrow> string" where
  "cleanBase64_of imageBase64 =
     (case split_on CHR '','' imageBase64 of
        _ # second # _ \<Rightarrow> if second \<noteq> [] then second else imageBase64
      | _ \<Rightarrow> imageBase64)"

definition request_parts :: "string \<Rightarrow> string option \<Rightarrow> part list" where
  "request_parts body imageBase64 =
     [TextPart prompt, TextPart (''Confession Text: '' @ [CHR 0x22] @ body @ [CHR 0x22])]
     @ (case imageBase64 of
          None \<Rightarrow> []
        | Some img \<Rightarrow> if img = [] then [] else [InlineData ''image/jpeg'' (cleanBase64_of img)])"

text \<open>The fallback of the \<open>catch\<close> block; the emoji is U+1F636 in UTF-8.\<close>

definition fallback :: json where
  "fallback = JObj
     [(''sentiment'', JStr ''neutral''),
      (''emoji'', JStr [CHR 0xF0, CHR 0x9F, CHR 0x98, CHR 0xB6]),
      (''tags'', JArr [JStr ''anonymous'', JStr ''student'']),
      (''colorTheme'', JStr ''#64748b''),
      (''isSafe'', JBool True)]"

text \<open>
  The \<open>try\<close> block. \<open>generateContent\<close> is the call to the model (the model name and
  the response schema are constants of the request) and \<open>JSON_parse\<close> is
  \<open>JSON.parse\<close>; either may throw. \<open>if (response.text)\<close> is false for a missing and
  for an empty text.
\<close>

definition analyzeConfession_try ::
  "(part list \<Rightarrow> js_error + GenerateContentResponse) \<Rightarrow> (string \<Rightarrow> js_error + json)
     \<Rightarrow> string \<Rightarrow> string option \<Rightarrow> js_error + json" where
  "analyzeConfession_try generateContent JSON_parse body imageBase64 =
     (case generateContent (request_parts body imageBase64) of
        Inl thrown \<Rightarrow> Inl thrown
      | Inr response \<Rightarrow>
          (case response_text response of
             None \<Rightarrow> Inl (Error ''No response from AI'')
           | Some t \<Rightarrow> if t \<noteq> [] then JSON_parse t else Inl (Error ''No response from AI'')))"

text \<open>
  \<open>analyzeConfession\<close>: the console output and the settled promise (\<open>Inl\<close> would be a
  rejection).
\<close>

definition analyzeConfession ::
  "(part list \<Rightarrow> js_error + GenerateContentResponse) \<Rightarrow> (string \<Rightarrow> js_error + json)
     \<Rightarrow> string \<Rightarrow> string option \<Rightarrow> js_error log_entry list \<times> (js_error + json)" where
  "analyzeConfession generateContent JSON_parse body imageBase64 =
     (case analyzeConfession_try generateContent JSON_parse body imageBase64 of
        Inr result \<Rightarrow> ([], Inr result)
      | Inl thrown \<Rightarrow> ([ConsoleError ''Gemini Analysis Error:'' thrown], Inr fallback))"

text \<open>The \<open>responseSchema\<close> of the request, as a predicate on JSON values.\<close>

definition is_JStr :: "json \<Rightarrow> bool" where
  "is_JStr v = (case v of JStr _ \<Rightarrow> True | _ \<Rightarrow> False)"

definition is_JBool :: "json \<Rightarrow> bool" where
  "is_JBool v = (case v of JBool _ \<Rightarrow> True | _ \<Rightarrow> False)"

definition matches_responseSchema :: "json \<Rightarrow> bool" where
  "matches_responseSchema v =
     (case v of
        JObj props \<Rightarrow>
          (case map_of props ''sentiment'' of
             Some (JStr s) \<Rightarrow> s \<in> set [''happy'', ''sad'', ''angry'', ''funny'', ''neutral'', ''romantic'']
           | _ \<Rightarrow> False)
          \<and> (case map_of props ''emoji'' of Some e \<Rightarrow> is_JStr e | None \<Rightarrow> False)
          \<and> (case map_of props ''tags'' of Some (JArr items) \<Rightarrow> list_all is_JStr items | _ \<Rightarrow> False)
          \<and> (case map_of props ''colorTheme'' of Some c \<Rightarrow> is_JStr c | None \<Rightarrow> False)
          \<and> (case map_of props ''isSafe'' of Some b \<Rightarrow> is_JBool b | None \<Rightarrow> False)
          \<and> (case map_of props ''flagReason'' of Some r \<Rightarrow> is_JStr r | None \<Rightarrow> True)
      | _ \<Rightarrow> False)"

section \<open>lib/supabaseService.ts\<close>

text \<open>
  A row of the \<open>confessions\<close> table, with the nullable columns as options, and the
  answer \<open>{ data, error }\<close> of the database client.
\<close>

record Row =
  row_id :: string
  row_type :: PostType
  row_text :: js_string
  row_image :: "string option"
  row_poll_options :: "PollOption list option"
  row_timestamp :: int
  row_reactions :: Reactions
  row_comments :: "Comment list option"
  row_sentiment :: Sentiment
  row_emoji :: string
  row_tags :: "js_string list option"
  row_color_theme :: string
  row_author_avatar :: Avatar
  row_is_safe :: bool

type_synonym PostgrestError = string

record 'a PostgrestResponse =
  pg_data :: "'a option"
  pg_error :: "PostgrestError option"

record UpdateData =
  ud_reactions :: "Reactions option"
  ud_comments :: "Comment list option"
  ud_poll_options :: "PollOption list option"

text \<open>
  The three queries the module issues: the ordered \<open>select\<close>, \<open>insert\<close> of rows, and
  \<open>update(...).eq('id', id)\<close>.
\<close>

record Supabase =
  select_confessions :: "Row list PostgrestResponse"
  insert_confessions :: "Row list \<Rightarrow> unit PostgrestResponse"
  update_confessions :: "UpdateData \<Rightarrow> string \<Rightarrow> unit PostgrestResponse"

text \<open>\<open>s || undefined\<close> on an optional string: the empty string is falsy.\<close>

definition truthy_string :: "string option \<Rightarrow> string option" where
  "truthy_string v = (case v of None \<Rightarrow> None | Some s \<Rightarrow> if s = [] then None else Some s)"

definition row_to_confession :: "Row \<Rightarrow> Confession" where
  "row_to_confession row =
     \<lparr>conf_id = row_id row, conf_type = row_type row, conf_text = row_text row,
      image = truthy_string (row_image row), audio = None, video = None,
      pollOptions = row_poll_options row, timestamp = row_timestamp row,
      authorAvatar = row_author_avatar row, reactions = row_reactions row,
      comments = (case row_comments row of None \<Rightarrow> [] | Some cms \<Rightarrow> cms),
      tags = (case row_tags row of None \<Rightarrow> [] | Some ts \<Rightarrow> ts),
      sentiment = row_sentiment row, emoji = row_emoji row, colorTheme = row_color_theme row,
      isSafe = row_is_safe row, flagReason = None\<rparr>"

text \<open>
  \<open>fetchConfessions\<close>: the console output and the settled promise. \<open>data.map\<close> on a
  null \<open>data\<close> is a \<open>TypeError\<close>.
\<close>

definition fetchConfessions :: "Supabase \<Rightarrow> PostgrestError log_entry list \<times> (js_error + Confession list)" where
  "fetchConfessions supabase =
     (let response = select_confessions supabase
      in case pg_error response of
           Some e \<Rightarrow> ([ConsoleError ''Error fetching confessions:'' e], Inr [])
         | None \<Rightarrow>
             (case pg_data response of
                None \<Rightarrow> ([], Inl (TypeError ''Cannot read properties of null (reading map)''))
              | Some rows \<Rightarrow> ([], Inr (map row_to_confession rows))))"

definition confession_to_row :: "Confession \<Rightarrow> Row" where
  "confession_to_row confession =
     \<lparr>row_id = conf_id confession, row_type = conf_type confession, row_text = conf_text confession,
      row_image = truthy_string (image confession), row_poll_options = pollOptions confession,
      row_timestamp = timestamp confession, row_reactions = reactions confession,
      row_comments = Some (comments confession), row_sentiment = sentiment confession,
      row_emoji = emoji confession, row_tags = Some (tags confession),
      row_color_theme = colorTheme confession, row_author_avatar = authorAvatar confession,
      row_is_safe = isSafe confession\<rparr>"

definition insertConfession :: "Supabase \<Rightarrow> Confession \<Rightarrow> PostgrestError log_entry list \<times> (js_error + bool)" where
  "insertConfession supabase confession =
     (let response = insert_confessions supabase [confession_to_row confession]
      in case pg_error response of
           Some e \<Rightarrow> ([ConsoleError ''Error inserting confession:'' e], Inr False)
         | None \<Rightarrow> ([], Inr True))"

text \<open>
  \<open>updateConfession\<close> copies each of the three fields that is present
  (\<open>if (updates.reactions) ...\<close>: an object or an array is truthy).
\<close>

definition updateConfession ::
  "Supabase \<Rightarrow> string \<Rightarrow> ConfessionUpdates \<Rightarrow> PostgrestError log_entry list \<times> (js_error + bool)" where
  "updateConfession supabase rid updates =
     (let updateData = \<lparr>ud_reactions = upd_reactions updates, ud_comments = upd_comments updates,
                         ud_poll_options = upd_pollOptions updates\<rparr>;
          response = update_confessions supabase updateData rid
      in case pg_error response of
           Some e \<Rightarrow> ([ConsoleError ''Error updating confession:'' e], Inr False)
         | None \<Rightarrow> ([], Inr True))"

section \<open>components/CreatePostModal.tsx\<close>

record ModalState =
  m_postType :: PostType
  m_text :: js_string
  m_image :: "string option"
  m_audio :: "string option"
  m_video :: "string option"
  m_pollOptions :: "js_string list"

definition initialModal :: ModalState where
  "initialModal = \<lparr>m_postType = TextPost, m_text = [], m_image = None, m_audio = None,
     m_video = None, m_pollOptions = [[], []]\<rparr>"

definition handleAddOption :: "ModalState \<Rightarrow> ModalState" where
  "handleAddOption st =
     (if length (m_pollOptions st) < 4 then st\<lparr>m_pollOptions := m_pollOptions st @ [[]]\<rparr> else st)"

text \<open>
  \<open>handleOptionChange\<close> is bound to the input fields, one per existing option, so
  \<open>index\<close> is below the length. An assignment past the end would grow a JavaScript
  array with holes; that is outside the model (\<open>None\<close>).
\<close>

definition handleOptionChange :: "nat \<Rightarrow> js_string \<Rightarrow> ModalState \<Rightarrow> ModalState option" where
  "handleOptionChange index v st =
     (if index < length (m_pollOptions st)
      then Some (st\<lparr>m_pollOptions := (m_pollOptions st)[index := v]\<rparr>)
      else None)"

text \<open>The events of the form that matter to a poll, and a run of them.\<close>

datatype ModalEvent = AddOption | OptionChange nat js_string | SetPostType PostType | SetText js_string

fun modal_step :: "ModalEvent \<Rightarrow> ModalState \<Rightarrow> ModalState option" where
  "modal_step AddOption st = Some (handleAddOption st)"
| "modal_step (OptionChange index v) st = handleOptionChange index v st"
| "modal_step (SetPostType t) st = Some (st\<lparr>m_postType := t\<rparr>)"
| "modal_step (SetText t) st = Some (st\<lparr>m_text := t\<rparr>)"

fun modal_run :: "ModalEvent list \<Rightarrow> ModalState \<Rightarrow> ModalState option" where
  "modal_run [] st = Some st"
| "modal_run (e # es) st = (case modal_step e st of None \<Rightarrow> None | Some st' \<Rightarrow> modal_run es st')"

text \<open>
  What \<open>handleSubmit\<close> hands to \<open>onPost\<close>: the fields it sets, and the analysis result
  spread over them (\<open>...aiResult\<close>).
\<close>

record PostDraft =
  draft_type :: PostType
  draft_text :: js_string
  draft_image :: "string option"
  draft_audio :: "string option"
  draft_video :: "string option"
  draft_pollOptions :: "PollOption list option"
  draft_analysis :: json

text \<open>Property access and truthiness on a parsed JSON value.\<close>

definition json_prop :: "json \<Rightarrow> string \<Rightarrow> js_error + json option" where
  "json_prop v k =
     (case v of
        JNull \<Rightarrow> Inl (TypeError ''Cannot read properties of null'')
      | JObj props \<Rightarrow> Inr (map_of props k)
      | _ \<Rightarrow> Inr None)"

definition js_truthy :: "json option \<Rightarrow> bool" where
  "js_truthy v =
     (case v of
        None \<Rightarrow> False
      | Some JNull \<Rightarrow> False
      | Some (JBool b) \<Rightarrow> b
      | Some (JNum n) \<Rightarrow> n \<noteq> 0
      | Some (JStr s) \<Rightarrow> s \<noteq> []
      | Some _ \<Rightarrow> True)"

fun string_of_nat :: "nat \<Rightarrow> string" where
  "string_of_nat n =
     (if n < 10 then [''0123456789'' ! n]
      else string_of_nat (n div 10) @ [''0123456789'' ! (n mod 10)])"

declare string_of_nat.simps [simp del]

text \<open>
  \<open>pollOptions.map((opt, i) => ({ id: `opt_${i}_${Date.now()}`, ... }))\<close>: the clock
  is read once for each option, and \<open>now i\<close> is the value read for the option at
  index \<open>i\<close>.
\<close>

definition finalPollOptions_of :: "(nat \<Rightarrow> nat) \<Rightarrow> js_string list \<Rightarrow> PollOption list" where
  "finalPollOptions_of now opts =
     map (\<lambda>(i, opt). \<lparr>opt_id = ''opt_'' @ string_of_nat i @ ''_'' @ string_of_nat (now i),
                       opt_text = opt, votes = 0\<rparr>)
       (zip [0..<length opts] opts)"

text \<open>
  \<open>handleSubmit\<close>. \<open>analyze\<close> gives the value the promise of \<open>analyzeConfession\<close>
  settles with, \<open>proceed\<close> is the answer to
  \<open>window.confirm\<close>, \<open>now\<close> gives the values of \<open>Date.now()\<close>. \<open>Inr None\<close>: the handler returned
  without calling \<open>onPost\<close>.
\<close>

definition handleSubmit ::
  "(js_string \<Rightarrow> string option \<Rightarrow> json) \<Rightarrow> bool \<Rightarrow> (nat \<Rightarrow> nat) \<Rightarrow> ModalState
     \<Rightarrow> js_error + PostDraft option" where
  "handleSubmit analyze proceed now st =
     (if trim (m_text st) = [] then Inr None
      else if m_postType st = PollPost \<and> list_ex (\<lambda>opt. trim opt = []) (m_pollOptions st) then Inr None
      else
        let aiResult = analyze (m_text st) (m_image st)
        in case json_prop aiResult ''isSafe'' of
             Inl thrown \<Rightarrow> Inl thrown
           | Inr safe \<Rightarrow>
               if \<not> js_truthy safe \<and> \<not> proceed then Inr None
               else Inr (Some
                 \<lparr>draft_type = m_postType st, draft_text = m_text st,
                  draft_image = (if m_postType st = TextPost then m_image st else None),
                  draft_audio = (if m_postType st = TextPost then m_audio st else None),
                  draft_video = (if m_postType st = VideoPost then m_video st else None),
                  draft_pollOptions =
                    (if m_postType st = PollPost then Some (finalPollOptions_of now (m_pollOptions st))
                     else None),
                  draft_analysis = aiResult\<rparr>))"

section \<open>Predicates of the statements and concrete inputs\<close>

text \<open>Every tally of every confession is non-negative.\<close>

definition all_nonneg :: "Confession list \<Rightarrow> bool" where
  "all_nonneg cs =
     list_all (\<lambda>c. list_all (\<lambda>k. 0 \<le> tally (reactions c) k) [Love, Funny, Sad, Shock, Fire]) cs"

text \<open>
  The ids the program generates for confessions and comments,
  \<open>Math.random().toString(36).substr(2, 9)\<close>: at most nine characters, each a digit or
  a lower-case letter.
\<close>

definition generated_id :: "string \<Rightarrow> bool" where
  "generated_id s =
     (length s \<le> 9 \<and> list_all (\<lambda>c. c \<in> set ''0123456789abcdefghijklmnopqrstuvwxyz'') s)"

text \<open>
  A small feed: a text confession and two polls; a fresh session; a remote store that
  succeeds and one that reports failure.
\<close>

definition avatar0 :: Avatar where
  "avatar0 = \<lparr>name = ''Neon Panda'', color = ''#ef4444'', icon = ''P''\<rparr>"

definition session0 :: UserSessionData where
  "session0 = \<lparr>avatar = avatar0, xp = 0, level = 1, reactedPosts = Map.empty,
     votedPolls = Some Map.empty\<rparr>"

definition confession0 :: Confession where
  "confession0 = \<lparr>conf_id = ''c1'', conf_type = TextPost, conf_text = js ''hello'', image = None,
     audio = None, video = None, pollOptions = None, timestamp = 1, authorAvatar = avatar0,
     reactions = \<lparr>love = 0, funny = 0, sad = 0, shock = 0, fire = 0\<rparr>, comments = [],
     tags = [js ''anonymous'', js ''student''], sentiment = Neutral, emoji = ''e'',
     colorTheme = ''#64748b'', isSafe = True, flagReason = None\<rparr>"

definition poll0 :: Confession where
  "poll0 = confession0\<lparr>conf_id := ''p1'', conf_type := PollPost, conf_text := js ''Tea or coffee?'',
     pollOptions := Some [\<lparr>opt_id = ''opt_0_7'', opt_text = js ''tea'', votes = 0\<rparr>,
                          \<lparr>opt_id = ''opt_1_7'', opt_text = js ''coffee'', votes = 0\<rparr>]\<rparr>"

definition poll1 :: Confession where
  "poll1 = poll0\<lparr>conf_id := ''p2'',
     pollOptions := Some [\<lparr>opt_id = ''opt_0_8'', opt_text = js ''tea'', votes = 0\<rparr>,
                          \<lparr>opt_id = ''opt_1_8'', opt_text = js ''coffee'', votes = 0\<rparr>]\<rparr>"

definition remote_down :: Remote where
  "remote_down = \<lparr>insertConfession_result = (\<lambda>c. False), updateConfession_result = (\<lambda>i u. False)\<rparr>"

definition remote_up :: Remote where
  "remote_up = \<lparr>insertConfession_result = (\<lambda>c. True), updateConfession_result = (\<lambda>i u. True)\<rparr>"

definition state0 :: AppState where
  "state0 = \<lparr>confessions = [confession0, poll0, poll1], userSession = session0,
     activeTab = Search, alerts = []\<rparr>"

text \<open>
  The session remembers a \<open>love\<close> reaction on \<open>c1\<close> while the loaded tally is zero
  (another client has written the tallies since): \<open>state_stale\<close>. The same with the
  tally at one: \<open>state_loved\<close>.
\<close>

definition state_stale :: AppState where
  "state_stale = state0\<lparr>userSession := session0\<lparr>reactedPosts := [''c1'' \<mapsto> Love]\<rparr>\<rparr>"

definition confession_loved :: Confession where
  "confession_loved = confession0\<lparr>reactions := \<lparr>love = 1, funny = 0, sad = 0, shock = 0, fire = 0\<rparr>\<rparr>"

definition state_loved :: AppState where
  "state_loved = \<lparr>confessions = [confession_loved, poll0],
     userSession = session0\<lparr>reactedPosts := [''c1'' \<mapsto> Love]\<rparr>, activeTab = Home, alerts = []\<rparr>"

definition post0 :: PostData where
  "post0 = \<lparr>post_type = TextPost, post_text = js ''hello'', post_image = None, post_audio = None,
     post_video = None, post_pollOptions = None, post_tags = [js ''anonymous'', js ''student''],
     post_sentiment = Neutral, post_emoji = ''e'', post_colorTheme = ''#64748b'',
     post_isSafe = True, post_flagReason = None\<rparr>"

lemmas ex_defs = state0_def state_stale_def session0_def confession0_def poll0_def poll1_def
  remote_down_def remote_up_def avatar0_def post0_def confession_loved_def state_loved_def




text \<open>
  The tags that are counted: all but \<open>__proto__\<close>. \<open>plain_counts\<close> is the counting
  object of a list of tags none of which names an inherited member.
\<close>

definition counted_tags :: "Confession list \<Rightarrow> js_string list" where
  "counted_tags cs = filter (\<lambda>t. t \<noteq> js ''__proto__'') (flat_tags cs)"

definition plain_counts :: "js_string list \<Rightarrow> counts_object" where
  "plain_counts ts =
     foldl (\<lambda>counts t. obj_set counts t ((case obj_get counts t of None \<Rightarrow> 0 | Some n \<Rightarrow> n) + 1)) [] ts"

text \<open>
  The order of the trending tags: a tag ranks before another when it occurs more often,
  and among tags that occur equally often when it is enumerated first. \<open>first_index\<close>
  is the position of the first occurrence; \<open>enumerated_before\<close> is the order in which
  \<open>Object.entries\<close> lists the keys: array indices in ascending numeric order, then the
  other tags in first-seen order.
\<close>

definition first_index :: "'a list \<Rightarrow> 'a \<Rightarrow> nat" where
  "first_index xs x = length (takeWhile (\<lambda>y. y \<noteq> x) xs)"

definition enumerated_before :: "js_string list \<Rightarrow> js_string \<Rightarrow> js_string \<Rightarrow> bool" where
  "enumerated_before ts a b =
     (if is_array_index a
      then (if is_array_index b then decimal_value a < decimal_value b else True)
      else (if is_array_index b then False else first_index ts a < first_index ts b))"

definition ranks_before :: "js_string list \<Rightarrow> js_string \<Rightarrow> js_string \<Rightarrow> bool" where
  "ranks_before ts a b =
     (count_list ts b < count_list ts a
      \<or> (count_list ts a = count_list ts b \<and> enumerated_before ts a b))"

definition confession_tagged :: "js_string list \<Rightarrow> Confession" where
  "confession_tagged ts = confession0\<lparr>tags := ts\<rparr>"

text \<open>Digits and canonical numerals, for the proofs about array indices.\<close>

definition digit_of :: "nat \<Rightarrow> int" where
  "digit_of c = (case digit_value c of None \<Rightarrow> 0 | Some d \<Rightarrow> d)"

definition canonical :: "js_string \<Rightarrow> bool" where
  "canonical s = (s \<noteq> [] \<and> list_all (\<lambda>c. digit_value c \<noteq> None) s \<and> (s = [0x30] \<or> hd s \<noteq> 0x30))"

definition feed_numeric :: "Confession list" where
  "feed_numeric = [confession_tagged [js ''exams'', js ''2024'']]"

definition feed_many :: "Confession list" where
  "feed_many = [confession_tagged [js ''a'', js ''b'', js ''c'', js ''d'', js ''__proto__'', js ''e'', js ''f''],
                confession_tagged [js ''g'', js ''h'', js ''i'', js ''j'', js ''k'', js ''k'', js ''l'']]"

lemmas trending_defs = trendingTags_def confession_tagged_def count_tags_def count_step_def obj_get_def
  Object_entries_def is_array_index_def digit_value_def decimal_value_def js_sort_def flat_tags_def
  feed_numeric_def feed_many_def Object_prototype_methods_def js_def

text \<open>
  Environments of \<open>analyzeConfession\<close>: a model call that throws, one that answers with
  a given response text (or none), and a \<open>JSON.parse\<close> given by the texts it accepts
  with their values (every other text is a syntax error).
\<close>

definition generateContent_offline :: "part list \<Rightarrow> js_error + GenerateContentResponse" where
  "generateContent_offline parts = Inl (TypeError ''fetch failed'')"

definition generateContent_answers :: "string option \<Rightarrow> part list \<Rightarrow> js_error + GenerateContentResponse" where
  "generateContent_answers t parts = Inr \<lparr>response_text = t\<rparr>"

definition JSON_parse_of :: "(string \<times> json) list \<Rightarrow> string \<Rightarrow> js_error + json" where
  "JSON_parse_of parsed t =
     (case map_of parsed t of
        Some v \<Rightarrow> Inr v
      | None \<Rightarrow> Inl (SyntaxError ''Unexpected token''))"

text \<open>
  A database client that answers, one that reports an error on every query, and one
  whose answer to the select carries neither rows nor an error.
\<close>

definition row0 :: Row where
  "row0 = \<lparr>row_id = ''c1'', row_type = TextPost, row_text = js ''hello'', row_image = Some [],
     row_poll_options = None, row_timestamp = 1,
     row_reactions = \<lparr>love = 0, funny = 0, sad = 0, shock = 0, fire = 0\<rparr>,
     row_comments = None, row_sentiment = Neutral, row_emoji = ''e'', row_tags = None,
     row_color_theme = ''#64748b'', row_author_avatar = avatar0, row_is_safe = True\<rparr>"

definition supabase_up :: Supabase where
  "supabase_up = \<lparr>select_confessions = \<lparr>pg_data = Some [row0], pg_error = None\<rparr>,
     insert_confessions = (\<lambda>rows. \<lparr>pg_data = None, pg_error = None\<rparr>),
     update_confessions = (\<lambda>u i. \<lparr>pg_data = None, pg_error = None\<rparr>)\<rparr>"

definition supabase_down :: Supabase where
  "supabase_down = \<lparr>select_confessions = \<lparr>pg_data = None, pg_error = Some ''connection refused''\<rparr>,
     insert_confessions = (\<lambda>rows. \<lparr>pg_data = None, pg_error = Some ''connection refused''\<rparr>),
     update_confessions = (\<lambda>u i. \<lparr>pg_data = None, pg_error = Some ''connection refused''\<rparr>)\<rparr>"

definition supabase_empty_answer :: Supabase where
  "supabase_empty_answer = supabase_up\<lparr>select_confessions := \<lparr>pg_data = None, pg_error = None\<rparr>\<rparr>"

definition updates0 :: ConfessionUpdates where
  "updates0 = \<lparr>upd_reactions = Some \<lparr>love = 1, funny = 0, sad = 0, shock = 0, fire = 0\<rparr>,
     upd_comments = None, upd_pollOptions = None\<rparr>"

text \<open>
  A poll draft with four option fields, one of them an ideographic space (U+3000); a
  draft whose text is a no-break space (U+00A0); an analysis that always gives the
  fallback.
\<close>

definition modal_poll_draft :: ModalState where
  "modal_poll_draft = \<lparr>m_postType = PollPost, m_text = js ''Tea or coffee?'', m_image = None,
     m_audio = None, m_video = None, m_pollOptions = [js ''tea'', js ''coffee'', js ''milk'', [0x3000]]\<rparr>"

definition modal_blank_text :: ModalState where
  "modal_blank_text = \<lparr>m_postType = TextPost, m_text = [0x00A0], m_image = None,
     m_audio = None, m_video = None, m_pollOptions = [[], []]\<rparr>"

definition analyze_fallback :: "js_string \<Rightarrow> string option \<Rightarrow> json" where
  "analyze_fallback body img = fallback"

section \<open>Lemmas on the handlers\<close>



lemma find_map_same_id:
  assumes "\<And>c. conf_id (f c) = conf_id c"
  shows "find (\<lambda>c. conf_id c = pid) (map f cs) = map_option f (find (\<lambda>c. conf_id c = pid) cs)"
  using assms by (induction cs) auto

lemma tally_set_tally: "tally (set_tally r k n) k' = (if k' = k then n else tally r k')"
  by (cases k; cases k') simp_all

lemma reactionsTotal_set_tally:
  "reactionsTotal (set_tally r k n) = reactionsTotal r - tally r k + n"
  by (cases k) (simp_all add: reactionsTotal_def)

lemma handleReact_toggle:
  assumes "find (\<lambda>c. conf_id c = pid) (confessions s) = Some c"
      and "reactedPosts (userSession s) pid = Some k"
  shows "handleReact remote pid k s =
     s\<lparr>userSession := (userSession s)\<lparr>reactedPosts := (reactedPosts (userSession s))(pid := None)\<rparr>,
       confessions := map (\<lambda>c'. if conf_id c' = pid
            then c'\<lparr>reactions := set_tally (reactions c) k (max 0 (tally (reactions c) k - 1))\<rparr> else c')
          (confessions s)\<rparr>"
  using assms by (simp add: handleReact_def Let_def)

lemma handleReact_swap:
  assumes "find (\<lambda>c. conf_id c = pid) (confessions s) = Some c"
      and "reactedPosts (userSession s) pid = Some a" and "a \<noteq> b"
  shows "handleReact remote pid b s =
     s\<lparr>userSession := (userSession s)\<lparr>reactedPosts := (reactedPosts (userSession s))(pid \<mapsto> b)\<rparr>,
       confessions := map (\<lambda>c'. if conf_id c' = pid
            then c'\<lparr>reactions := set_tally (set_tally (reactions c) a (max 0 (tally (reactions c) a - 1))) b
                  (tally (reactions c) b + 1)\<rparr> else c')
          (confessions s)\<rparr>"
  using assms by (simp add: handleReact_def Let_def tally_set_tally)

lemma handleReact_first:
  assumes "find (\<lambda>c. conf_id c = pid) (confessions s) = Some c"
      and "reactedPosts (userSession s) pid = None"
  shows "handleReact remote pid b s =
     s\<lparr>userSession := addXP 2 ((userSession s)\<lparr>reactedPosts := (reactedPosts (userSession s))(pid \<mapsto> b)\<rparr>),
       confessions := map (\<lambda>c'. if conf_id c' = pid
            then c'\<lparr>reactions := set_tally (reactions c) b (tally (reactions c) b + 1)\<rparr> else c')
          (confessions s)\<rparr>"
  using assms by (simp add: handleReact_def Let_def)


lemma find_SomeD: "find P xs = Some x \<Longrightarrow> x \<in> set xs \<and> P x"
  by (induction xs) (auto split: if_splits)

lemma all_kinds: "set [Love, Funny, Sad, Shock, Fire] = UNIV"
proof -
  have "k \<in> set [Love, Funny, Sad, Shock, Fire]" for k by (cases k) simp_all
  then show ?thesis by blast
qed

lemma all_nonneg_iff: "all_nonneg cs \<longleftrightarrow> (\<forall>c \<in> set cs. \<forall>k. 0 \<le> tally (reactions c) k)"
  unfolding all_nonneg_def list_all_iff all_kinds by simp

lemma all_nonneg_map:
  assumes "all_nonneg cs" and "\<And>k. 0 \<le> tally r k"
  shows "all_nonneg (map (\<lambda>c. if conf_id c = pid then c\<lparr>reactions := r\<rparr> else c) cs)"
  using assms by (auto simp: all_nonneg_iff)

lemma handleReact_nonneg:
  assumes "all_nonneg (confessions s)"
  shows "all_nonneg (confessions (handleReact remote pid k s))"
proof (cases "find (\<lambda>c. conf_id c = pid) (confessions s)")
  case None
  then show ?thesis using assms by (simp add: handleReact_def)
next
  case (Some c)
  then have "c \<in> set (confessions s)" by (simp add: find_SomeD)
  with assms have nn: "\<And>j. 0 \<le> tally (reactions c) j" by (simp add: all_nonneg_iff)
  show ?thesis
  proof (cases "reactedPosts (userSession s) pid")
    case None
    have "\<And>j. 0 \<le> tally (set_tally (reactions c) k (tally (reactions c) k + 1)) j"
      using nn by (simp add: tally_set_tally add_nonneg_nonneg)
    then show ?thesis using Some None assms
      by (simp add: handleReact_first all_nonneg_map)
  next
    case (Some a)
    note old = this
    show ?thesis
    proof (cases "a = k")
      case True
      have "\<And>j. 0 \<le> tally (set_tally (reactions c) k (max 0 (tally (reactions c) k - 1))) j"
        using nn by (simp add: tally_set_tally)
      then show ?thesis using \<open>find _ _ = Some c\<close> old True assms
        by (simp add: handleReact_toggle all_nonneg_map)
    next
      case False
      have "\<And>j. 0 \<le> tally (set_tally (set_tally (reactions c) a (max 0 (tally (reactions c) a - 1))) k
                  (tally (reactions c) k + 1)) j"
        using nn by (simp add: tally_set_tally add_nonneg_nonneg)
      then show ?thesis using \<open>find _ _ = Some c\<close> old False assms
        by (simp add: handleReact_swap all_nonneg_map)
    qed
  qed
qed


section \<open>Optimistic updates and the remote store\<close>

text \<open>
  Claim C2: every optimistic mutation (add reaction, add comment, cast poll vote, create
  post) is rolled back when the remote call reports failure. Evaluated on \<open>state0\<close> with
  a remote store that answers \<open>false\<close> to every call: \<open>handlePost\<close> branches on the
  answer, leaves the list as it was and alerts the user; \<open>handleReact\<close>,
  \<open>handleComment\<close> and \<open>handleVote\<close> await the answer of \<open>updateConfession\<close> and never
  read it, so the reaction tally, the comment and the vote stay in the local list.
\<close>

theorem failed_update_keeps_optimistic_change:
  "confessions (handlePost remote_down ''n1'' 9 post0 state0) = confessions state0
   \<and> alerts (handlePost remote_down ''n1'' 9 post0 state0) = [''Failed to post confession. Please try again.'']
   \<and> map (\<lambda>c. love (reactions c)) (confessions state0) = [0, 0, 0]
   \<and> map (\<lambda>c. love (reactions c)) (confessions (handleReact remote_down ''c1'' Love state0)) = [1, 0, 0]
   \<and> map (\<lambda>c. length (comments c)) (confessions state0) = [0, 0, 0]
   \<and> map (\<lambda>c. length (comments c))
        (confessions (handleComment remote_down ''k1'' 2 ''c1'' ''hi'' state0)) = [1, 0, 0]
   \<and> map (\<lambda>c. map_option (map votes) (pollOptions c)) (confessions state0)
        = [None, Some [0, 0], Some [0, 0]]
   \<and> map (\<lambda>c. map_option (map votes) (pollOptions c))
        (confessions (handleVote remote_down ''p1'' ''opt_0_7'' state0))
        = [None, Some [1, 0], Some [0, 0]]"
  by (simp add: handlePost_def newConfession_of_def handleReact_def handleComment_def handleVote_def
      has_voted_def votedPolls_or_empty_def ex_defs Let_def)

section \<open>Reactions\<close>

text \<open>
  Claim C3, amended: when the session's recorded reaction on a loaded post is the kind
  reacted with, the handler clears the session's reaction for that post and lowers that
  kind's tally by one, stopping at zero (the new tally is \<open>max 0 (old - 1)\<close>, which is
  \<open>old - 1\<close> whenever the tally was at least one); the other tallies of the post are
  unchanged. A reaction operation on a list whose tallies are all non-negative leaves
  all tallies non-negative.
\<close>

theorem react_same_kind_clears_and_decrements:
  "(find (\<lambda>c. conf_id c = pid) (confessions s) = Some c \<and> reactedPosts (userSession s) pid = Some k \<longrightarrow>
      reactedPosts (userSession (handleReact remote pid k s)) pid = None
      \<and> (\<exists>c'. find (\<lambda>c. conf_id c = pid) (confessions (handleReact remote pid k s)) = Some c'
            \<and> tally (reactions c') k = max 0 (tally (reactions c) k - 1)
            \<and> (1 \<le> tally (reactions c) k \<longrightarrow> tally (reactions c') k = tally (reactions c) k - 1)
            \<and> (\<forall>k'. k' \<noteq> k \<longrightarrow> tally (reactions c') k' = tally (reactions c) k')))
   \<and> (all_nonneg (confessions s') \<longrightarrow> all_nonneg (confessions (handleReact remote' pid' k' s')))"
proof (intro conjI impI)
  assume h: "find (\<lambda>c. conf_id c = pid) (confessions s) = Some c \<and> reactedPosts (userSession s) pid = Some k"
  then have eq: "handleReact remote pid k s =
     s\<lparr>userSession := (userSession s)\<lparr>reactedPosts := (reactedPosts (userSession s))(pid := None)\<rparr>,
       confessions := map (\<lambda>c'. if conf_id c' = pid
            then c'\<lparr>reactions := set_tally (reactions c) k (max 0 (tally (reactions c) k - 1))\<rparr> else c')
          (confessions s)\<rparr>"
    by (simp add: handleReact_toggle)
  show "reactedPosts (userSession (handleReact remote pid k s)) pid = None"
    by (simp add: eq)
  have "find (\<lambda>c. conf_id c = pid) (confessions (handleReact remote pid k s))
      = Some (c\<lparr>reactions := set_tally (reactions c) k (max 0 (tally (reactions c) k - 1))\<rparr>)"
    using h find_SomeD[of "\<lambda>c. conf_id c = pid" "confessions s" c]
    by (simp add: eq find_map_same_id)
  then show "\<exists>c'. find (\<lambda>c. conf_id c = pid) (confessions (handleReact remote pid k s)) = Some c'
            \<and> tally (reactions c') k = max 0 (tally (reactions c) k - 1)
            \<and> (1 \<le> tally (reactions c) k \<longrightarrow> tally (reactions c') k = tally (reactions c) k - 1)
            \<and> (\<forall>k'. k' \<noteq> k \<longrightarrow> tally (reactions c') k' = tally (reactions c) k')"
    by (simp add: tally_set_tally)
next
  assume "all_nonneg (confessions s')"
  then show "all_nonneg (confessions (handleReact remote' pid' k' s'))"
    by (rule handleReact_nonneg)
qed

theorem react_same_kind_witness:
  "reactedPosts (userSession (handleReact remote_up ''c1'' Love state_loved)) ''c1'' = None
   \<and> (\<exists>c'. find (\<lambda>c. conf_id c = ''c1'') (confessions (handleReact remote_up ''c1'' Love state_loved)) = Some c'
         \<and> tally (reactions c') Love = 0 \<and> tally (reactions c') Funny = 0)
   \<and> all_nonneg (confessions (handleReact remote_up ''c1'' Funny state0))"
proof -
  have h1: "find (\<lambda>c. conf_id c = ''c1'') (confessions state_loved) = Some confession_loved
      \<and> reactedPosts (userSession state_loved) ''c1'' = Some Love"
    by (simp add: ex_defs)
  have h2: "all_nonneg (confessions state0)"
    by (simp add: all_nonneg_def ex_defs)
  have t: "tally (reactions confession_loved) Love = 1" "tally (reactions confession_loved) Funny = 0"
    "Funny \<noteq> Love"
    by (simp_all add: ex_defs)
  show ?thesis
    using react_same_kind_clears_and_decrements
      [of "''c1''" state_loved confession_loved Love remote_up state0 remote_up "''c1''" Funny]
      h1 h2 t by auto
qed

text \<open>
  The claim as stated (the tally drops by exactly one) fails where the loaded tally is
  zero: the session of \<open>state_stale\<close> holds \<open>love\<close> on \<open>c1\<close>, the tally is 0 and stays 0.
\<close>

theorem stale_tally_counterexample:
  "find (\<lambda>c. conf_id c = ''c1'') (confessions state_stale) = Some confession0
   \<and> reactedPosts (userSession state_stale) ''c1'' = Some Love
   \<and> tally (reactions confession0) Love = 0
   \<and> map (\<lambda>c. tally (reactions c) Love) (confessions (handleReact remote_up ''c1'' Love state_stale))
        = [0, 0, 0]"
  by (simp add: handleReact_def ex_defs Let_def)

text \<open>
  Claim C4, amended: when the session holds kind \<open>a\<close> on a loaded post and reacts with
  another kind \<open>b\<close>, the recorded reaction becomes \<open>b\<close>, no experience points are
  awarded, \<open>a\<close>'s tally becomes \<open>max 0 (old - 1)\<close>, \<open>b\<close>'s tally rises by one and the
  other tallies are unchanged; the sum of the five tallies is unchanged provided \<open>a\<close>'s
  tally was at least one.
\<close>

theorem react_other_kind_swaps:
  "find (\<lambda>c. conf_id c = pid) (confessions s) = Some c \<and> reactedPosts (userSession s) pid = Some a \<and> a \<noteq> b \<longrightarrow>
      reactedPosts (userSession (handleReact remote pid b s)) pid = Some b
      \<and> xp (userSession (handleReact remote pid b s)) = xp (userSession s)
      \<and> level (userSession (handleReact remote pid b s)) = level (userSession s)
      \<and> (\<exists>c'. find (\<lambda>c. conf_id c = pid) (confessions (handleReact remote pid b s)) = Some c'
            \<and> tally (reactions c') a = max 0 (tally (reactions c) a - 1)
            \<and> tally (reactions c') b = tally (reactions c) b + 1
            \<and> (\<forall>k. k \<noteq> a \<and> k \<noteq> b \<longrightarrow> tally (reactions c') k = tally (reactions c) k)
            \<and> (1 \<le> tally (reactions c) a \<longrightarrow> reactionsTotal (reactions c') = reactionsTotal (reactions c)))"
proof (intro impI)
  assume h: "find (\<lambda>c. conf_id c = pid) (confessions s) = Some c \<and> reactedPosts (userSession s) pid = Some a \<and> a \<noteq> b"
  let ?r = "set_tally (set_tally (reactions c) a (max 0 (tally (reactions c) a - 1))) b (tally (reactions c) b + 1)"
  from h have eq: "handleReact remote pid b s =
     s\<lparr>userSession := (userSession s)\<lparr>reactedPosts := (reactedPosts (userSession s))(pid \<mapsto> b)\<rparr>,
       confessions := map (\<lambda>c'. if conf_id c' = pid then c'\<lparr>reactions := ?r\<rparr> else c') (confessions s)\<rparr>"
    by (simp add: handleReact_swap)
  have found: "find (\<lambda>c. conf_id c = pid) (confessions (handleReact remote pid b s)) = Some (c\<lparr>reactions := ?r\<rparr>)"
    using h find_SomeD[of "\<lambda>c. conf_id c = pid" "confessions s" c]
    by (simp add: eq find_map_same_id)
  have total: "1 \<le> tally (reactions c) a \<Longrightarrow> reactionsTotal ?r = reactionsTotal (reactions c)"
    using h by (auto simp: reactionsTotal_set_tally tally_set_tally)
  show "reactedPosts (userSession (handleReact remote pid b s)) pid = Some b
      \<and> xp (userSession (handleReact remote pid b s)) = xp (userSession s)
      \<and> level (userSession (handleReact remote pid b s)) = level (userSession s)
      \<and> (\<exists>c'. find (\<lambda>c. conf_id c = pid) (confessions (handleReact remote pid b s)) = Some c'
            \<and> tally (reactions c') a = max 0 (tally (reactions c) a - 1)
            \<and> tally (reactions c') b = tally (reactions c) b + 1
            \<and> (\<forall>k. k \<noteq> a \<and> k \<noteq> b \<longrightarrow> tally (reactions c') k = tally (reactions c) k)
            \<and> (1 \<le> tally (reactions c) a \<longrightarrow> reactionsTotal (reactions c') = reactionsTotal (reactions c)))"
    using h total by (simp add: found) (simp add: eq tally_set_tally)
qed

theorem react_other_kind_swaps_witness:
  "reactedPosts (userSession (handleReact remote_up ''c1'' Fire state_loved)) ''c1'' = Some Fire
   \<and> xp (userSession (handleReact remote_up ''c1'' Fire state_loved)) = 0
   \<and> (\<exists>c'. find (\<lambda>c. conf_id c = ''c1'') (confessions (handleReact remote_up ''c1'' Fire state_loved)) = Some c'
         \<and> tally (reactions c') Love = 0 \<and> tally (reactions c') Fire = 1 \<and> tally (reactions c') Sad = 0
         \<and> reactionsTotal (reactions c') = 1)"
proof -
  have h: "find (\<lambda>c. conf_id c = ''c1'') (confessions state_loved) = Some confession_loved
      \<and> reactedPosts (userSession state_loved) ''c1'' = Some Love \<and> Love \<noteq> Fire"
    by (simp add: ex_defs)
  have t: "tally (reactions confession_loved) Love = 1" "tally (reactions confession_loved) Fire = 0"
    "tally (reactions confession_loved) Sad = 0" "reactionsTotal (reactions confession_loved) = 1"
    "xp (userSession state_loved) = 0"
    by (simp_all add: ex_defs reactionsTotal_def)
  show ?thesis
    using react_other_kind_swaps[of "''c1''" state_loved confession_loved Love Fire remote_up] h t
    by auto
qed

text \<open>
  The claim as stated (the sum is always unchanged) fails where \<open>a\<close>'s loaded tally is
  zero: in \<open>state_stale\<close> the change from \<open>love\<close> to \<open>fire\<close> takes the sum from 0 to 1.
\<close>

theorem swap_at_zero_counterexample:
  "find (\<lambda>c. conf_id c = ''c1'') (confessions state_stale) = Some confession0
   \<and> reactedPosts (userSession state_stale) ''c1'' = Some Love
   \<and> reactionsTotal (reactions confession0) = 0
   \<and> map (\<lambda>c. tally (reactions c) Love) (confessions (handleReact remote_up ''c1'' Fire state_stale)) = [0, 0, 0]
   \<and> map (\<lambda>c. reactionsTotal (reactions c)) (confessions (handleReact remote_up ''c1'' Fire state_stale)) = [1, 0, 0]"
  by (simp add: handleReact_def ex_defs Let_def reactionsTotal_def)

section \<open>Poll votes\<close>

lemma handleVote_first:
  assumes "find (\<lambda>c. conf_id c = cid) (confessions s) = Some c"
      and "pollOptions c = Some opts"
      and "\<not> has_voted (userSession s) cid"
  shows "handleVote remote cid oid s =
     s\<lparr>userSession := addXP 5 ((userSession s)
            \<lparr>votedPolls := Some ((votedPolls_or_empty (userSession s))(cid \<mapsto> oid))\<rparr>),
       confessions := map (\<lambda>c'. if conf_id c' = cid
            then c'\<lparr>pollOptions := Some (map (\<lambda>opt. if opt_id opt = oid then opt\<lparr>votes := votes opt + 1\<rparr> else opt) opts)\<rparr>
            else c') (confessions s)\<rparr>"
  using assms by (simp add: handleVote_def Let_def)

lemma handleVote_again: "has_voted (userSession s) cid \<Longrightarrow> handleVote remote cid oid s = s"
  by (simp add: handleVote_def)

lemma votedPolls_or_empty_addXP [simp]: "votedPolls_or_empty (addXP n u) = votedPolls_or_empty u"
  by (simp add: votedPolls_or_empty_def addXP_def Let_def)

text \<open>
  The ids of the polls the program creates: the poll's id is a generated id, which is
  never the name of a member that objects inherit from \<open>Object.prototype\<close>, and the
  option ids that \<open>handleSubmit\<close> generates are never empty.
\<close>

lemma generated_id_not_inherited: "generated_id s \<Longrightarrow> s \<notin> set Object_prototype_names"
  by (auto simp: generated_id_def Object_prototype_names_def Object_prototype_methods_def)

lemma finalPollOptions_ids_nonempty:
  "opt \<in> set (finalPollOptions_of now opts) \<Longrightarrow> opt_id opt \<noteq> []"
  unfolding finalPollOptions_of_def by auto

text \<open>
  Claim C5: for every session and poll (a loaded poll that the program created: its id is
  a generated id and its option ids are those \<open>handleSubmit\<close> generated), only the first
  vote is recorded. When the session has no vote recorded for the poll, a vote for one of
  its options stores the choice under the poll's id in the session's voted-polls map (the
  other entries are unchanged) and raises the count of the chosen option by one (the
  other options are unchanged); every later vote attempt of the session on that poll,
  whatever the option and the answer of the remote store, leaves the whole state, poll
  options and session, unchanged.
\<close>

theorem first_vote_recorded_later_votes_ignored:
  "generated_id cid \<and> find (\<lambda>c. conf_id c = cid) (confessions s) = Some c \<and> pollOptions c = Some opts
     \<and> map opt_id opts = map opt_id (finalPollOptions_of now texts) \<and> oid \<in> set (map opt_id opts)
     \<and> votedPolls_or_empty (userSession s) cid = None \<longrightarrow>
   votedPolls_or_empty (userSession (handleVote remote cid oid s)) cid = Some oid
   \<and> (\<forall>p. p \<noteq> cid \<longrightarrow> votedPolls_or_empty (userSession (handleVote remote cid oid s)) p
                          = votedPolls_or_empty (userSession s) p)
   \<and> (\<exists>c' opts'. find (\<lambda>c. conf_id c = cid) (confessions (handleVote remote cid oid s)) = Some c'
         \<and> pollOptions c' = Some opts' \<and> length opts' = length opts
         \<and> (\<forall>i < length opts.
               opt_id (opts' ! i) = opt_id (opts ! i) \<and> opt_text (opts' ! i) = opt_text (opts ! i)
               \<and> votes (opts' ! i) = votes (opts ! i) + (if opt_id (opts ! i) = oid then 1 else 0)))
   \<and> (\<forall>remote' oid'. handleVote remote' cid oid' (handleVote remote cid oid s) = handleVote remote cid oid s)"
proof (intro impI)
  assume h: "generated_id cid \<and> find (\<lambda>c. conf_id c = cid) (confessions s) = Some c \<and> pollOptions c = Some opts
     \<and> map opt_id opts = map opt_id (finalPollOptions_of now texts) \<and> oid \<in> set (map opt_id opts)
     \<and> votedPolls_or_empty (userSession s) cid = None"
  let ?opts' = "map (\<lambda>opt. if opt_id opt = oid then opt\<lparr>votes := votes opt + 1\<rparr> else opt) opts"
  let ?s' = "handleVote remote cid oid s"
  from h have m: "map opt_id opts = map opt_id (finalPollOptions_of now texts)"
    and o: "oid \<in> set (map opt_id opts)" by blast+
  from o have "oid \<in> set (map opt_id (finalPollOptions_of now texts))" unfolding m .
  then obtain opt where "opt \<in> set (finalPollOptions_of now texts)" and "opt_id opt = oid" by auto
  then have ne: "oid \<noteq> []" using finalPollOptions_ids_nonempty by blast
  from h have nv: "\<not> has_voted (userSession s) cid" by (simp add: has_voted_def)
  have eq: "?s' =
     s\<lparr>userSession := addXP 5 ((userSession s)
            \<lparr>votedPolls := Some ((votedPolls_or_empty (userSession s))(cid \<mapsto> oid))\<rparr>),
       confessions := map (\<lambda>c'. if conf_id c' = cid then c'\<lparr>pollOptions := Some ?opts'\<rparr> else c')
          (confessions s)\<rparr>"
    using h nv by (simp add: handleVote_first)
  have vp: "votedPolls_or_empty (userSession ?s') = (votedPolls_or_empty (userSession s))(cid \<mapsto> oid)"
    by (simp add: eq) (simp add: votedPolls_or_empty_def)
  have found: "find (\<lambda>c. conf_id c = cid) (confessions ?s') = Some (c\<lparr>pollOptions := Some ?opts'\<rparr>)"
    using h find_SomeD[of "\<lambda>c. conf_id c = cid" "confessions s" c]
    by (simp add: eq find_map_same_id)
  have voted: "has_voted (userSession ?s') cid"
    using ne by (simp add: has_voted_def vp)
  have opts: "\<forall>i < length opts.
               opt_id (?opts' ! i) = opt_id (opts ! i) \<and> opt_text (?opts' ! i) = opt_text (opts ! i)
               \<and> votes (?opts' ! i) = votes (opts ! i) + (if opt_id (opts ! i) = oid then 1 else 0)"
    by simp
  have c3: "\<exists>c' opts'. find (\<lambda>c. conf_id c = cid) (confessions ?s') = Some c'
         \<and> pollOptions c' = Some opts' \<and> length opts' = length opts
         \<and> (\<forall>i < length opts.
               opt_id (opts' ! i) = opt_id (opts ! i) \<and> opt_text (opts' ! i) = opt_text (opts ! i)
               \<and> votes (opts' ! i) = votes (opts ! i) + (if opt_id (opts ! i) = oid then 1 else 0))"
    apply (rule exI[of _ "c\<lparr>pollOptions := Some ?opts'\<rparr>"])
    apply (rule exI[of _ ?opts'])
    using found opts by simp
  show "votedPolls_or_empty (userSession ?s') cid = Some oid
   \<and> (\<forall>p. p \<noteq> cid \<longrightarrow> votedPolls_or_empty (userSession ?s') p = votedPolls_or_empty (userSession s) p)
   \<and> (\<exists>c' opts'. find (\<lambda>c. conf_id c = cid) (confessions ?s') = Some c'
         \<and> pollOptions c' = Some opts' \<and> length opts' = length opts
         \<and> (\<forall>i < length opts.
               opt_id (opts' ! i) = opt_id (opts ! i) \<and> opt_text (opts' ! i) = opt_text (opts ! i)
               \<and> votes (opts' ! i) = votes (opts ! i) + (if opt_id (opts ! i) = oid then 1 else 0)))
   \<and> (\<forall>remote' oid'. handleVote remote' cid oid' ?s' = ?s')"
    using c3 voted by (simp add: vp handleVote_again)
qed

theorem first_vote_witness:
  "votedPolls_or_empty (userSession (handleVote remote_up ''p1'' ''opt_1_7'' state0)) ''p1'' = Some ''opt_1_7''
   \<and> votedPolls_or_empty (userSession (handleVote remote_up ''p1'' ''opt_1_7'' state0)) ''p2'' = None
   \<and> (\<exists>c' opts'. find (\<lambda>c. conf_id c = ''p1'') (confessions (handleVote remote_up ''p1'' ''opt_1_7'' state0)) = Some c'
         \<and> pollOptions c' = Some opts' \<and> length opts' = 2
         \<and> votes (opts' ! 0) = 0 \<and> votes (opts' ! 1) = 1)
   \<and> handleVote remote_down ''p1'' ''opt_0_7'' (handleVote remote_up ''p1'' ''opt_1_7'' state0)
       = handleVote remote_up ''p1'' ''opt_1_7'' state0"
proof -
  let ?opts = "[\<lparr>opt_id = ''opt_0_7'', opt_text = js ''tea'', votes = 0\<rparr>,
                \<lparr>opt_id = ''opt_1_7'', opt_text = js ''coffee'', votes = 0\<rparr>]"
  have g: "map opt_id (finalPollOptions_of (\<lambda>i. 7) [js ''tea'', js ''coffee'']) = [''opt_0_7'', ''opt_1_7'']"
    by (simp add: finalPollOptions_of_def string_of_nat.simps upt_rec)
  have h: "generated_id ''p1'' \<and> find (\<lambda>c. conf_id c = ''p1'') (confessions state0) = Some poll0
     \<and> pollOptions poll0 = Some ?opts
     \<and> map opt_id ?opts = map opt_id (finalPollOptions_of (\<lambda>i. 7) [js ''tea'', js ''coffee''])
     \<and> ''opt_1_7'' \<in> set (map opt_id ?opts)
     \<and> votedPolls_or_empty (userSession state0) ''p1'' = None"
    unfolding g by (simp add: ex_defs votedPolls_or_empty_def generated_id_def)
  have ne: "''p2'' \<noteq> ''p1''" by simp
  have vp2: "votedPolls_or_empty (userSession state0) ''p2'' = None"
    by (simp add: ex_defs votedPolls_or_empty_def)
  from first_vote_recorded_later_votes_ignored
    [of "''p1''" state0 poll0 ?opts "\<lambda>i. 7" "[js ''tea'', js ''coffee'']" "''opt_1_7''" remote_up] h
  have r: "votedPolls_or_empty (userSession (handleVote remote_up ''p1'' ''opt_1_7'' state0)) ''p1'' = Some ''opt_1_7''"
    "\<forall>p. p \<noteq> ''p1'' \<longrightarrow> votedPolls_or_empty (userSession (handleVote remote_up ''p1'' ''opt_1_7'' state0)) p
                          = votedPolls_or_empty (userSession state0) p"
    "\<exists>c' opts'. find (\<lambda>c. conf_id c = ''p1'') (confessions (handleVote remote_up ''p1'' ''opt_1_7'' state0)) = Some c'
         \<and> pollOptions c' = Some opts' \<and> length opts' = length ?opts
         \<and> (\<forall>i < length ?opts.
               opt_id (opts' ! i) = opt_id (?opts ! i) \<and> opt_text (opts' ! i) = opt_text (?opts ! i)
               \<and> votes (opts' ! i) = votes (?opts ! i) + (if opt_id (?opts ! i) = ''opt_1_7'' then 1 else 0))"
    "\<forall>remote' oid'. handleVote remote' ''p1'' oid' (handleVote remote_up ''p1'' ''opt_1_7'' state0)
        = handleVote remote_up ''p1'' ''opt_1_7'' state0"
    by blast+
  from r(3) obtain c' opts' where c':
    "find (\<lambda>c. conf_id c = ''p1'') (confessions (handleVote remote_up ''p1'' ''opt_1_7'' state0)) = Some c'"
    "pollOptions c' = Some opts'" "length opts' = length ?opts"
    "\<forall>i < length ?opts. votes (opts' ! i) = votes (?opts ! i) + (if opt_id (?opts ! i) = ''opt_1_7'' then 1 else 0)"
    by blast
  from c'(4) have "votes (opts' ! 0) = 0" "votes (opts' ! 1) = 1"
    by (simp_all add: less_Suc_eq all_conj_distrib)
  with c' have e: "\<exists>c' opts'. find (\<lambda>c. conf_id c = ''p1'') (confessions (handleVote remote_up ''p1'' ''opt_1_7'' state0)) = Some c'
         \<and> pollOptions c' = Some opts' \<and> length opts' = 2
         \<and> votes (opts' ! 0) = 0 \<and> votes (opts' ! 1) = 1"
    by auto
  show ?thesis using r(1) r(2) r(4) e vp2 ne by simp
qed

section \<open>Experience points\<close>




section \<open>Search\<close>


lemma trim_empty_iff: "trim s = [] \<longleftrightarrow> (\<forall>c \<in> set s. is_whitespace c)"
proof
  assume t: "trim s = []"
  let ?d = "dropWhile is_whitespace s"
  from t have all: "\<forall>x \<in> set ?d. is_whitespace x"
    by (simp add: trim_def dropWhile_eq_Nil_conv)
  have "?d = []"
  proof (rule ccontr)
    assume ne: "?d \<noteq> []"
    then have "\<not> is_whitespace (hd ?d)" by (rule hd_dropWhile)
    moreover from ne have "hd ?d \<in> set ?d" by simp
    ultimately show False using all by blast
  qed
  then show "\<forall>c \<in> set s. is_whitespace c" by (simp add: dropWhile_eq_Nil_conv)
next
  assume "\<forall>c \<in> set s. is_whitespace c"
  then have d: "dropWhile is_whitespace s = []" by (simp add: dropWhile_eq_Nil_conv)
  show "trim s = []" unfolding trim_def d by simp
qed



section \<open>Trending tags\<close>

subsection \<open>Stable sorting\<close>

lemma insert_by_insort_key:
  "insert_by (\<lambda>a b. snd b - snd a) (x :: 'a \<times> int) ys = insort_key (\<lambda>e. - snd e) x ys"
  by (induction ys) auto

lemma js_sort_sort_key:
  "js_sort (\<lambda>a b. snd b - snd a) (xs :: ('a \<times> int) list) = sort_key (\<lambda>e. - snd e) xs"
proof -
  have "insert_by (\<lambda>a b. snd b - snd a) = (insort_key (\<lambda>e. - snd e) :: 'a \<times> int \<Rightarrow> _)"
    by (intro ext) (rule insert_by_insort_key)
  then show ?thesis by (simp add: js_sort_def sort_key_def)
qed

lemma insort_key_sorted_wrt:
  fixes f :: "'a \<Rightarrow> 'b::linorder"
  assumes "sorted (map f ys)" and "sorted_wrt R ys"
    and "\<forall>y \<in> set ys. f x \<le> f y \<longrightarrow> R x y"
    and "\<forall>y \<in> set ys. f y < f x \<longrightarrow> R y x"
  shows "sorted_wrt R (insort_key f x ys)"
  using assms
proof (induction ys)
  case Nil
  then show ?case by simp
next
  case (Cons y ys)
  show ?case
  proof (cases "f x \<le> f y")
    case True
    then have "\<forall>z \<in> set (y # ys). f x \<le> f z" using Cons.prems(1) by auto
    then have "\<forall>z \<in> set (y # ys). R x z" using Cons.prems(3) by blast
    then show ?thesis using True Cons.prems(2) by simp
  next
    case False
    then have "R y x" using Cons.prems(4) by simp
    moreover have "sorted_wrt R (insort_key f x ys)"
      using Cons.IH Cons.prems by simp
    ultimately show ?thesis using False Cons.prems(2) by (auto simp: set_insort_key)
  qed
qed

lemma sort_key_stable_wrt:
  fixes f :: "'a \<Rightarrow> 'b::linorder"
  assumes "sorted_wrt Q xs"
  shows "sorted_wrt (\<lambda>a b. f a < f b \<or> (f a = f b \<and> Q a b)) (sort_key f xs)"
  using assms
proof (induction xs)
  case Nil
  then show ?case by simp
next
  case (Cons x xs)
  have "sorted_wrt (\<lambda>a b. f a < f b \<or> (f a = f b \<and> Q a b)) (insort_key f x (sort_key f xs))"
  proof (rule insort_key_sorted_wrt)
    show "sorted (map f (sort_key f xs))" by simp
    show "sorted_wrt (\<lambda>a b. f a < f b \<or> (f a = f b \<and> Q a b)) (sort_key f xs)"
      using Cons by simp
    show "\<forall>y \<in> set (sort_key f xs). f x \<le> f y \<longrightarrow> f x < f y \<or> (f x = f y \<and> Q x y)"
      using Cons.prems by auto
    show "\<forall>y \<in> set (sort_key f xs). f y < f x \<longrightarrow> f y < f x \<or> (f y = f x \<and> Q y x)"
      by simp
  qed
  then show ?case by simp
qed

subsection \<open>First occurrences\<close>

lemma first_index_less: "a \<in> set ts \<Longrightarrow> first_index ts a < length ts"
  by (induction ts) (auto simp: first_index_def)

lemma first_index_append_in: "a \<in> set ts \<Longrightarrow> first_index (ts @ us) a = first_index ts a"
  by (simp add: first_index_def takeWhile_append1)

lemma first_index_append_new: "a \<notin> set ts \<Longrightarrow> first_index (ts @ [a]) a = length ts"
  by (induction ts) (auto simp: first_index_def)

subsection \<open>The counts object\<close>

lemma keys_obj_set:
  "map fst (obj_set obj k v) = (if k \<in> set (map fst obj) then map fst obj else map fst obj @ [k])"
  by (induction obj) (fastforce simp: image_iff)+

lemma map_of_obj_set: "map_of (obj_set obj k v) = (map_of obj)(k \<mapsto> v)"
  by (induction obj) auto

lemma plain_counts_snoc:
  "plain_counts (ts @ [t]) =
     obj_set (plain_counts ts) t ((case obj_get (plain_counts ts) t of None \<Rightarrow> 0 | Some n \<Rightarrow> n) + 1)"
  by (simp add: plain_counts_def)

lemma plain_counts_keys:
  "distinct (map fst (plain_counts ts)) \<and> set (map fst (plain_counts ts)) = set ts
   \<and> sorted_wrt (\<lambda>a b. first_index ts a < first_index ts b) (map fst (plain_counts ts))"
proof (induction ts rule: rev_induct)
  case Nil
  then show ?case by (simp add: plain_counts_def)
next
  case (snoc t ts)
  let ?ks = "map fst (plain_counts ts)"
  from snoc have d: "distinct ?ks" and s: "set ?ks = set ts"
    and o: "sorted_wrt (\<lambda>a b. first_index ts a < first_index ts b) ?ks" by simp_all
  have o': "sorted_wrt (\<lambda>a b. first_index (ts @ [t]) a < first_index (ts @ [t]) b) ?ks"
  proof (rule sorted_wrt_mono_rel[OF _ o])
    fix x y assume "x \<in> set ?ks" "y \<in> set ?ks" "first_index ts x < first_index ts y"
    then show "first_index (ts @ [t]) x < first_index (ts @ [t]) y"
      using s by (simp only: first_index_append_in)
  qed
  show ?case
  proof (cases "t \<in> set ts")
    case True
    then have "map fst (plain_counts (ts @ [t])) = ?ks"
      using s by (simp add: plain_counts_snoc keys_obj_set)
    then show ?thesis using d s o' True by auto
  next
    case False
    then have k: "map fst (plain_counts (ts @ [t])) = ?ks @ [t]"
      using s by (simp add: plain_counts_snoc keys_obj_set)
    have lt: "\<forall>a \<in> set ts. first_index (ts @ [t]) a < first_index (ts @ [t]) t"
      using False by (simp add: first_index_append_in first_index_append_new first_index_less)
    have "distinct (?ks @ [t])" using d s False by auto
    moreover have "set (?ks @ [t]) = set (ts @ [t])" using s by auto
    moreover have "sorted_wrt (\<lambda>a b. first_index (ts @ [t]) a < first_index (ts @ [t]) b) (?ks @ [t])"
      unfolding sorted_wrt_append using o' lt s by auto
    ultimately show ?thesis unfolding k by blast
  qed
qed

lemma plain_counts_values:
  "map_of (plain_counts ts) t = (if t \<in> set ts then Some (int (count_list ts t)) else None)"
proof (induction ts arbitrary: t rule: rev_induct)
  case Nil
  then show ?case by (simp add: plain_counts_def)
next
  case (snoc u ts)
  then show ?case
    by (simp add: plain_counts_snoc map_of_obj_set obj_get_def)
qed

lemma plain_counts_entry:
  assumes "e \<in> set (plain_counts ts)"
  shows "fst e \<in> set ts \<and> snd e = int (count_list ts (fst e))"
proof -
  have "distinct (map fst (plain_counts ts))" using plain_counts_keys by blast
  with assms have "map_of (plain_counts ts) (fst e) = Some (snd e)" by simp
  then show ?thesis by (simp add: plain_counts_values split: if_splits)
qed


text \<open>
  When no tag names an inherited method, the counting object of the code is the plain
  counting object of the tags other than \<open>__proto__\<close>.
\<close>

lemma count_tags_plain:
  assumes "\<forall>t \<in> set ts. t \<notin> set (map js Object_prototype_methods)"
  shows "count_tags ts = Some (plain_counts (filter (\<lambda>t. t \<noteq> js ''__proto__'') ts))"
  using assms
proof (induction ts rule: rev_induct)
  case Nil
  then show ?case by (simp add: count_tags_def plain_counts_def)
next
  case (snoc t ts)
  let ?fs = "filter (\<lambda>t. t \<noteq> js ''__proto__'') ts"
  from snoc have ih: "count_tags ts = Some (plain_counts ?fs)" by simp
  from snoc.prems have nm: "t \<notin> set (map js Object_prototype_methods)" by simp
  have step: "count_tags (ts @ [t]) = count_step (Some (plain_counts ?fs)) t"
    using ih by (simp add: count_tags_def)
  show ?case
  proof (cases "t = js ''__proto__''")
    case True
    have "js ''__proto__'' \<notin> set (map fst (plain_counts ?fs))"
      using plain_counts_keys[of ?fs] by simp
    then have "obj_get (plain_counts ?fs) (js ''__proto__'') = None"
      by (simp add: obj_get_def map_of_eq_None_iff)
    then show ?thesis using True step by (simp add: count_step_def)
  next
    case False
    have "count_step (Some (plain_counts ?fs)) t = Some (plain_counts (?fs @ [t]))"
      using False nm by (simp add: count_step_def plain_counts_snoc split: option.splits)
    then show ?thesis using False step by simp
  qed
qed

subsection \<open>Array indices\<close>

lemma decimal_value_snoc: "decimal_value (s @ [c]) = 10 * decimal_value s + digit_of c"
  by (simp add: decimal_value_def digit_of_def)

lemma digit_of_range: "0 \<le> digit_of c \<and> digit_of c \<le> 9"
  by (simp add: digit_of_def digit_value_def)

lemma digit_of_inj:
  "digit_value c \<noteq> None \<Longrightarrow> digit_value c' \<noteq> None \<Longrightarrow> digit_of c = digit_of c' \<Longrightarrow> c = c'"
  by (simp add: digit_of_def digit_value_def split: if_splits)

lemma digit_of_zero: "digit_value c \<noteq> None \<Longrightarrow> digit_of c = 0 \<Longrightarrow> c = 0x30"
  by (simp add: digit_of_def digit_value_def split: if_splits)

lemma decimal_value_nonneg: "0 \<le> decimal_value s"
proof (induction s rule: rev_induct)
  case Nil
  then show ?case by (simp add: decimal_value_def)
next
  case (snoc c s)
  then show ?case using digit_of_range[of c] by (simp add: decimal_value_snoc)
qed

lemma decimal_value_pos:
  "list_all (\<lambda>c. digit_value c \<noteq> None) s \<Longrightarrow> s \<noteq> [] \<Longrightarrow> hd s \<noteq> 0x30 \<Longrightarrow> 0 < decimal_value s"
proof (induction s rule: rev_induct)
  case Nil
  then show ?case by simp
next
  case (snoc c s)
  show ?case
  proof (cases "s = []")
    case True
    with snoc.prems have "digit_of c \<noteq> 0" using digit_of_zero[of c] by auto
    then show ?thesis using True digit_of_range[of c] by (simp add: decimal_value_def digit_of_def)
  next
    case False
    with snoc have "0 < decimal_value s" by simp
    then show ?thesis using digit_of_range[of c] by (simp add: decimal_value_snoc)
  qed
qed

lemma canonical_butlast:
  assumes "canonical (s @ [c])" and "s \<noteq> []"
  shows "canonical s \<and> hd s \<noteq> 0x30"
proof -
  from assms have "s @ [c] \<noteq> [0x30]" by (cases s) auto
  with assms show ?thesis by (auto simp: canonical_def)
qed

lemma canonical_inj:
  "canonical a \<Longrightarrow> canonical b \<Longrightarrow> decimal_value a = decimal_value b \<Longrightarrow> a = b"
proof (induction a arbitrary: b rule: rev_induct)
  case Nil
  then show ?case by (simp add: canonical_def)
next
  case (snoc c a)
  from snoc.prems(2) obtain b' c' where b: "b = b' @ [c']"
    by (cases b rule: rev_cases) (auto simp: canonical_def)
  from snoc.prems(3) have e: "10 * decimal_value a + digit_of c = 10 * decimal_value b' + digit_of c'"
    by (simp add: b decimal_value_snoc)
  have dig: "digit_of c = digit_of c'" and val: "decimal_value a = decimal_value b'"
    using e digit_of_range[of c] digit_of_range[of c'] by presburger+
  have "digit_value c \<noteq> None" "digit_value c' \<noteq> None"
    using snoc.prems(1,2) by (auto simp: canonical_def b)
  with dig have cc: "c = c'" by (simp add: digit_of_inj)
  have "a = b'"
  proof (cases "a = []")
    case True
    show ?thesis
    proof (rule ccontr)
      assume "a \<noteq> b'"
      with True have ne: "b' \<noteq> []" by simp
      with snoc.prems(2) have "canonical b' \<and> hd b' \<noteq> 0x30"
        unfolding b by (rule canonical_butlast)
      then have "0 < decimal_value b'" using ne by (simp add: canonical_def decimal_value_pos)
      with val True show False by (simp add: decimal_value_def)
    qed
  next
    case False
    with snoc.prems(1) have ca: "canonical a \<and> hd a \<noteq> 0x30" by (rule canonical_butlast)
    show ?thesis
    proof (cases "b' = []")
      case True
      from ca False have "0 < decimal_value a" by (simp add: canonical_def decimal_value_pos)
      with val True show ?thesis by (simp add: decimal_value_def)
    next
      case bne: False
      with snoc.prems(2) have "canonical b' \<and> hd b' \<noteq> 0x30"
        unfolding b by (rule canonical_butlast)
      with ca val show ?thesis using snoc.IH by blast
    qed
  qed
  with cc b show ?case by simp
qed

lemma array_index_inj:
  "is_array_index a \<Longrightarrow> is_array_index b \<Longrightarrow> decimal_value a = decimal_value b \<Longrightarrow> a = b"
  by (rule canonical_inj) (auto simp: is_array_index_def canonical_def)


subsection \<open>The sorted entries\<close>

lemma Object_entries_set: "set (Object_entries obj) = set obj"
  by (auto simp: Object_entries_def)

lemma Object_entries_length: "length (Object_entries obj) = length obj"
  by (simp add: Object_entries_def sum_length_filter_compl)

lemma Object_entries_distinct: "distinct obj \<Longrightarrow> distinct (Object_entries obj)"
  by (auto simp: Object_entries_def)

lemma Object_entries_sorted:
  assumes q: "sorted_wrt (\<lambda>a b. first_index ts a < first_index ts b) (map fst obj)"
  shows "sorted_wrt (\<lambda>a b. enumerated_before ts (fst a) (fst b)) (Object_entries obj)"
proof -
  let ?Q = "\<lambda>a b :: js_string \<times> int. first_index ts (fst a) < first_index ts (fst b)"
  let ?dv = "\<lambda>e :: js_string \<times> int. decimal_value (fst e)"
  let ?E = "\<lambda>a b :: js_string \<times> int. enumerated_before ts (fst a) (fst b)"
  let ?A = "sort_key ?dv (filter (\<lambda>e. is_array_index (fst e)) obj)"
  let ?B = "filter (\<lambda>e. \<not> is_array_index (fst e)) obj"
  from q have q': "sorted_wrt ?Q obj" by (simp add: sorted_wrt_map)
  have "sorted_wrt (\<lambda>a b. ?dv a < ?dv b \<or> (?dv a = ?dv b \<and> ?Q a b)) ?A"
    by (rule sort_key_stable_wrt) (simp add: sorted_wrt_filter q')
  then have a: "sorted_wrt ?E ?A"
  proof (rule sorted_wrt_mono_rel[rotated])
    fix x y assume x: "x \<in> set ?A" and y: "y \<in> set ?A"
      and r: "?dv x < ?dv y \<or> (?dv x = ?dv y \<and> ?Q x y)"
    from x y have ix: "is_array_index (fst x)" and iy: "is_array_index (fst y)" by simp_all
    have "\<not> (?dv x = ?dv y \<and> ?Q x y)"
    proof
      assume h: "?dv x = ?dv y \<and> ?Q x y"
      with ix iy have "fst x = fst y" by (simp add: array_index_inj)
      with h show False by simp
    qed
    with r have "?dv x < ?dv y" by blast
    with ix iy show "?E x y" by (simp add: enumerated_before_def)
  qed
  have "sorted_wrt ?Q ?B" by (simp add: sorted_wrt_filter q')
  then have b: "sorted_wrt ?E ?B"
    by (rule sorted_wrt_mono_rel[rotated]) (simp add: enumerated_before_def)
  have c: "\<forall>x \<in> set ?A. \<forall>y \<in> set ?B. ?E x y"
    by (simp add: enumerated_before_def)
  show ?thesis unfolding Object_entries_def sorted_wrt_append using a b c by blast
qed

lemma sorted_entries:
  "sorted_wrt (ranks_before ts)
     (map fst (js_sort (\<lambda>a b. snd b - snd a) (Object_entries (plain_counts ts))))"
proof -
  let ?obj = "plain_counts ts"
  let ?es = "Object_entries ?obj"
  let ?E = "\<lambda>a b :: js_string \<times> int. enumerated_before ts (fst a) (fst b)"
  let ?key = "\<lambda>e :: js_string \<times> int. - snd e"
  have "sorted_wrt ?E ?es"
    using plain_counts_keys[of ts] by (simp add: Object_entries_sorted)
  then have "sorted_wrt (\<lambda>a b. ?key a < ?key b \<or> (?key a = ?key b \<and> ?E a b)) (sort_key ?key ?es)"
    by (rule sort_key_stable_wrt)
  then have "sorted_wrt (\<lambda>a b. ranks_before ts (fst a) (fst b)) (sort_key ?key ?es)"
  proof (rule sorted_wrt_mono_rel[rotated])
    fix x y assume "x \<in> set (sort_key ?key ?es)" "y \<in> set (sort_key ?key ?es)"
      and r: "?key x < ?key y \<or> (?key x = ?key y \<and> ?E x y)"
    then have "x \<in> set ?obj" "y \<in> set ?obj" by (simp_all add: Object_entries_set)
    then have "snd x = int (count_list ts (fst x))" "snd y = int (count_list ts (fst y))"
      by (simp_all add: plain_counts_entry)
    with r show "ranks_before ts (fst x) (fst y)" by (auto simp: ranks_before_def)
  qed
  then show ?thesis by (simp add: js_sort_sort_key sorted_wrt_map)
qed

lemma sorted_keys_facts:
  "distinct (map fst (js_sort (\<lambda>a b. snd b - snd a) (Object_entries (plain_counts ts))))
   \<and> set (map fst (js_sort (\<lambda>a b. snd b - snd a) (Object_entries (plain_counts ts)))) = set ts
   \<and> length (js_sort (\<lambda>a b. snd b - snd a) (Object_entries (plain_counts ts))) = card (set ts)"
proof -
  let ?obj = "plain_counts ts"
  have d: "distinct (map fst ?obj)" and s: "set (map fst ?obj) = set ts"
    using plain_counts_keys[of ts] by blast+
  from d have inj: "inj_on fst (set ?obj)" and dd: "distinct ?obj" by (simp_all add: distinct_map)
  have "distinct (map fst (sort_key (\<lambda>e. - snd e) (Object_entries ?obj)))"
    using inj dd by (simp add: distinct_map Object_entries_set Object_entries_distinct)
  moreover have "set (map fst (sort_key (\<lambda>e. - snd e) (Object_entries ?obj))) = set ts"
    using s by (simp add: Object_entries_set)
  moreover have "length (sort_key (\<lambda>e. - snd e) (Object_entries ?obj)) = card (set ts)"
    using distinct_card[OF d] s by (simp add: Object_entries_length)
  ultimately show ?thesis by (simp add: js_sort_sort_key)
qed

lemma trending_feed_many:
  "trendingTags feed_many
     = Some [js ''k'', js ''a'', js ''b'', js ''c'', js ''d'', js ''e'', js ''f'', js ''g'', js ''h'', js ''i'']"
  by (simp add: trending_defs)

text \<open>
  Claim C8, amended: for every list of confessions none of whose tags names a method
  inherited from \<open>Object.prototype\<close> (\<open>constructor\<close>, \<open>toString\<close>, ...), the trending
  tags are distinct tags of the loaded confessions other than \<open>__proto__\<close> (which is
  never counted), as many as there are such distinct tags up to ten, in descending
  order of their number of occurrences, and every tag left out occurs at most as often
  as every tag listed; ties are broken by the enumeration order of the counting object:
  tags that are array indices (canonical decimal numerals below \<open>2^32 - 1\<close>, such as
  \<open>2024\<close>) come first in ascending numeric order, the other tags follow in first-seen
  order.
\<close>

theorem trending_tags_ranked:
  "(\<forall>t \<in> set (flat_tags cs). t \<notin> set (map js Object_prototype_methods)) \<longrightarrow>
   (\<exists>out. trendingTags cs = Some out
      \<and> distinct out
      \<and> set out \<subseteq> set (counted_tags cs)
      \<and> length out = min 10 (card (set (counted_tags cs)))
      \<and> (\<forall>i j. i < j \<and> j < length out \<longrightarrow> ranks_before (counted_tags cs) (out ! i) (out ! j))
      \<and> (\<forall>t \<in> set (counted_tags cs) - set out. \<forall>u \<in> set out. ranks_before (counted_tags cs) u t))"
proof
  assume h: "\<forall>t \<in> set (flat_tags cs). t \<notin> set (map js Object_prototype_methods)"
  let ?ts = "counted_tags cs"
  let ?L = "map fst (js_sort (\<lambda>a b. snd b - snd a) (Object_entries (plain_counts ?ts)))"
  have "count_tags (flat_tags cs) = Some (plain_counts ?ts)"
    using h unfolding counted_tags_def by (rule count_tags_plain)
  then have out: "trendingTags cs = Some (take 10 ?L)"
    by (simp add: trendingTags_def Let_def take_map)
  have sw: "sorted_wrt (ranks_before ?ts) ?L" by (rule sorted_entries)
  have d: "distinct ?L" and s: "set ?L = set ?ts" and l: "length ?L = card (set ?ts)"
    using sorted_keys_facts[of ?ts] by simp_all
  have c1: "distinct (take 10 ?L)" using d by (rule distinct_take)
  have c2: "set (take 10 ?L) \<subseteq> set ?ts" using s set_take_subset[of 10 ?L] by simp
  have c3: "length (take 10 ?L) = min 10 (card (set ?ts))" using l by (simp add: min.commute)
  have c4: "\<forall>i j. i < j \<and> j < length (take 10 ?L) \<longrightarrow>
         ranks_before ?ts (take 10 ?L ! i) (take 10 ?L ! j)"
  proof (intro allI impI)
    fix i j assume h: "i < j \<and> j < length (take 10 ?L)"
    then have "j < length ?L" "i < 10" "j < 10" by simp_all
    with h sw show "ranks_before ?ts (take 10 ?L ! i) (take 10 ?L ! j)"
      by (simp add: sorted_wrt_iff_nth_less)
  qed
  have c5: "\<forall>t \<in> set ?ts - set (take 10 ?L). \<forall>u \<in> set (take 10 ?L). ranks_before ?ts u t"
  proof (intro ballI)
    fix t u assume t: "t \<in> set ?ts - set (take 10 ?L)" and u: "u \<in> set (take 10 ?L)"
    have "set ?L = set (take 10 ?L) \<union> set (drop 10 ?L)"
      by (simp only: set_append[symmetric] append_take_drop_id)
    with t s have "t \<in> set (drop 10 ?L)" by blast
    moreover have "sorted_wrt (ranks_before ?ts) (take 10 ?L @ drop 10 ?L)" using sw by simp
    ultimately show "ranks_before ?ts u t" using u unfolding sorted_wrt_append by blast
  qed
  show "\<exists>out. trendingTags cs = Some out
      \<and> distinct out
      \<and> set out \<subseteq> set ?ts
      \<and> length out = min 10 (card (set ?ts))
      \<and> (\<forall>i j. i < j \<and> j < length out \<longrightarrow> ranks_before ?ts (out ! i) (out ! j))
      \<and> (\<forall>t \<in> set ?ts - set out. \<forall>u \<in> set out. ranks_before ?ts u t)"
    using out c1 c2 c3 c4 c5 by blast
qed

theorem trending_tags_witness:
  "trendingTags feed_many
     = Some [js ''k'', js ''a'', js ''b'', js ''c'', js ''d'', js ''e'', js ''f'', js ''g'', js ''h'', js ''i'']
   \<and> card (set (counted_tags feed_many)) = 12
   \<and> ranks_before (counted_tags feed_many) (js ''k'') (js ''a'')
   \<and> ranks_before (counted_tags feed_many) (js ''i'') (js ''l'')"
proof -
  let ?out = "[js ''k'', js ''a'', js ''b'', js ''c'', js ''d'', js ''e'', js ''f'', js ''g'', js ''h'', js ''i'']"
  have tm: "trendingTags feed_many = Some ?out" by (rule trending_feed_many)
  have h: "\<forall>t \<in> set (flat_tags feed_many). t \<notin> set (map js Object_prototype_methods)"
    by (simp add: feed_many_def flat_tags_def confession_tagged_def Object_prototype_methods_def js_def)
  have ct: "counted_tags feed_many
     = [js ''a'', js ''b'', js ''c'', js ''d'', js ''e'', js ''f'', js ''g'', js ''h'', js ''i'', js ''j'',
        js ''k'', js ''k'', js ''l'']"
    by (simp add: counted_tags_def feed_many_def flat_tags_def confession_tagged_def js_def)
  have cd: "card (set (counted_tags feed_many)) = 12"
    unfolding ct by (simp add: js_def card_insert_if)
  from trending_tags_ranked[of feed_many] h tm have
    r: "\<forall>i j. i < j \<and> j < length ?out \<longrightarrow> ranks_before (counted_tags feed_many) (?out ! i) (?out ! j)"
    and q: "\<forall>t \<in> set (counted_tags feed_many) - set ?out. \<forall>u \<in> set ?out.
         ranks_before (counted_tags feed_many) u t"
    by auto
  have h1: "(0::nat) < 1 \<and> 1 < length ?out" by simp
  have h2: "js ''l'' \<in> set (counted_tags feed_many) - set ?out"
    unfolding ct by (simp add: js_def)
  have h3: "js ''i'' \<in> set ?out" by simp
  from r h1 have "ranks_before (counted_tags feed_many) (?out ! 0) (?out ! 1)" by blast
  then have a: "ranks_before (counted_tags feed_many) (js ''k'') (js ''a'')" by simp
  from q h2 h3 have b: "ranks_before (counted_tags feed_many) (js ''i'') (js ''l'')" by blast
  show ?thesis using tm cd a b by simp
qed

text \<open>
  The claim as stated (ties broken by first-seen order) fails for a tag that is an array
  index: \<open>exams\<close> is seen before \<open>2024\<close>, both occur once, and \<open>2024\<close> is listed first.
\<close>

theorem numeric_tag_counterexample:
  "trendingTags feed_numeric = Some [js ''2024'', js ''exams'']
   \<and> count_list (flat_tags feed_numeric) (js ''2024'') = count_list (flat_tags feed_numeric) (js ''exams'')
   \<and> first_index (flat_tags feed_numeric) (js ''exams'') < first_index (flat_tags feed_numeric) (js ''2024'')"
  by (simp add: trending_defs first_index_def)

text \<open>
  The two conditions of the amended claim are needed: the tag \<open>__proto__\<close> is never
  counted, however often it occurs, and a tag that names an inherited method has no
  numeric count, so that the ranking by count is outside the model.
\<close>

lemma proto_tag_never_listed:
  "trendingTags [confession_tagged [js ''__proto__'', js ''__proto__'', js ''a'']] = Some [js ''a'']"
  by (simp add: trending_defs)

lemma inherited_method_tag_not_counted:
  "trendingTags [confession_tagged [js ''a'', js ''constructor'']] = None"
  by (simp add: trending_defs)

section \<open>The analysis wrapper\<close>

text \<open>
  Claim C1, amended: for every input text and optional image, when the model call throws,
  when the response has no text or an empty text, or when \<open>JSON.parse\<close> throws,
  \<open>analyzeConfession\<close> does not propagate the error and returns exactly the fixed
  fallback result, independent of the input; it never rejects. A response text that
  parses is returned as parsed: the value is not checked against the response schema.
\<close>

theorem analysis_failure_gives_fallback:
  "(((\<exists>e. generateContent (request_parts body img) = Inl e)
      \<or> (\<exists>r. generateContent (request_parts body img) = Inr r
              \<and> (response_text r = None \<or> response_text r = Some []))
      \<or> (\<exists>r t e. generateContent (request_parts body img) = Inr r
              \<and> response_text r = Some t \<and> JSON_parse t = Inl e))
     \<longrightarrow> snd (analyzeConfession generateContent JSON_parse body img) = Inr fallback)
   \<and> (\<forall>r t v. generateContent (request_parts body img) = Inr r \<and> response_text r = Some t
          \<and> t \<noteq> [] \<and> JSON_parse t = Inr v
        \<longrightarrow> analyzeConfession generateContent JSON_parse body img = ([], Inr v))
   \<and> (\<exists>v. snd (analyzeConfession generateContent JSON_parse body img) = Inr v)"
proof (intro conjI impI allI)
  assume "(\<exists>e. generateContent (request_parts body img) = Inl e)
      \<or> (\<exists>r. generateContent (request_parts body img) = Inr r
              \<and> (response_text r = None \<or> response_text r = Some []))
      \<or> (\<exists>r t e. generateContent (request_parts body img) = Inr r
              \<and> response_text r = Some t \<and> JSON_parse t = Inl e)"
  then have "\<exists>e. analyzeConfession_try generateContent JSON_parse body img = Inl e"
    by (auto simp: analyzeConfession_try_def)
  then show "snd (analyzeConfession generateContent JSON_parse body img) = Inr fallback"
    by (auto simp: analyzeConfession_def)
next
  fix r t v
  assume "generateContent (request_parts body img) = Inr r \<and> response_text r = Some t
          \<and> t \<noteq> [] \<and> JSON_parse t = Inr v"
  then show "analyzeConfession generateContent JSON_parse body img = ([], Inr v)"
    by (simp add: analyzeConfession_def analyzeConfession_try_def)
next
  show "\<exists>v. snd (analyzeConfession generateContent JSON_parse body img) = Inr v"
    by (cases "analyzeConfession_try generateContent JSON_parse body img")
       (simp_all add: analyzeConfession_def)
qed

theorem analysis_failure_witness:
  "snd (analyzeConfession generateContent_offline (JSON_parse_of []) ''hello'' None) = Inr fallback
   \<and> snd (analyzeConfession (generateContent_answers None) (JSON_parse_of []) ''hello'' None) = Inr fallback
   \<and> snd (analyzeConfession (generateContent_answers (Some [])) (JSON_parse_of []) ''hello'' None) = Inr fallback
   \<and> snd (analyzeConfession (generateContent_answers (Some ''oops'')) (JSON_parse_of []) ''hello'' (Some ''data:image/jpeg;base64,AAAA''))
       = Inr fallback
   \<and> analyzeConfession (generateContent_answers (Some ''true'')) (JSON_parse_of [(''true'', JBool True)]) ''hello'' None
       = ([], Inr (JBool True))"
proof -
  have h1: "\<exists>e. generateContent_offline (request_parts ''hello'' None) = Inl e"
    by (simp add: generateContent_offline_def)
  have h2: "\<exists>r. generateContent_answers None (request_parts ''hello'' None) = Inr r
              \<and> (response_text r = None \<or> response_text r = Some [])"
    by (simp add: generateContent_answers_def)
  have h3: "\<exists>r. generateContent_answers (Some []) (request_parts ''hello'' None) = Inr r
              \<and> (response_text r = None \<or> response_text r = Some [])"
    by (simp add: generateContent_answers_def)
  have h4: "\<exists>r t e. generateContent_answers (Some ''oops'') (request_parts ''hello'' (Some ''data:image/jpeg;base64,AAAA'')) = Inr r
              \<and> response_text r = Some t \<and> JSON_parse_of [] t = Inl e"
    by (simp add: generateContent_answers_def JSON_parse_of_def)
  have h5: "generateContent_answers (Some ''true'') (request_parts ''hello'' None) = Inr \<lparr>response_text = Some ''true''\<rparr>
      \<and> response_text \<lparr>response_text = Some ''true''\<rparr> = Some ''true'' \<and> ''true'' \<noteq> []
      \<and> JSON_parse_of [(''true'', JBool True)] ''true'' = Inr (JBool True)"
    by (simp add: generateContent_answers_def JSON_parse_of_def)
  show ?thesis
    using analysis_failure_gives_fallback[of generateContent_offline "''hello''" None "JSON_parse_of []"]
      analysis_failure_gives_fallback[of "generateContent_answers None" "''hello''" None "JSON_parse_of []"]
      analysis_failure_gives_fallback[of "generateContent_answers (Some [])" "''hello''" None "JSON_parse_of []"]
      analysis_failure_gives_fallback[of "generateContent_answers (Some ''oops'')" "''hello''"
        "Some ''data:image/jpeg;base64,AAAA''" "JSON_parse_of []"]
      analysis_failure_gives_fallback[of "generateContent_answers (Some ''true'')" "''hello''" None
        "JSON_parse_of [(''true'', JBool True)]"]
      h1 h2 h3 h4 h5 by blast
qed

text \<open>
  The claim as stated (a schema violation gives the fallback) fails: the response text
  \<open>{}\<close> parses to the empty object, which lacks every required field of the schema, and
  the empty object is returned instead of the fallback.
\<close>

theorem schema_violation_counterexample:
  "\<not> matches_responseSchema (JObj [])
   \<and> analyzeConfession (generateContent_answers (Some ''{}'')) (JSON_parse_of [(''{}'', JObj [])]) ''hello'' None
       = ([], Inr (JObj []))
   \<and> JObj [] \<noteq> fallback
   \<and> matches_responseSchema fallback"
  by (simp add: matches_responseSchema_def analyzeConfession_def analyzeConfession_try_def
      generateContent_answers_def JSON_parse_of_def fallback_def is_JStr_def is_JBool_def)


section \<open>The data-access module\<close>

text \<open>
  Claim C9, amended: the data-access module does not throw to its callers when the
  client's answer carries an error or, for the select, the rows. When the client
  reports an error, \<open>fetchConfessions\<close> logs it and returns the empty list, and
  \<open>insertConfession\<close> and \<open>updateConfession\<close> log it and return \<open>false\<close>; when the
  client reports none, \<open>fetchConfessions\<close> returns the mapped rows and the other two
  return \<open>true\<close>. \<open>insertConfession\<close> and \<open>updateConfession\<close> never throw.
\<close>

theorem data_access_never_throws:
  "(pg_error (select_confessions sb) = Some e \<longrightarrow>
      fetchConfessions sb = ([ConsoleError ''Error fetching confessions:'' e], Inr []))
   \<and> (pg_error (select_confessions sb) = None \<and> pg_data (select_confessions sb) = Some rows \<longrightarrow>
      fetchConfessions sb = ([], Inr (map row_to_confession rows)))
   \<and> (pg_error (select_confessions sb) \<noteq> None \<or> pg_data (select_confessions sb) \<noteq> None \<longrightarrow>
      (\<exists>cs. snd (fetchConfessions sb) = Inr cs))
   \<and> (pg_error (insert_confessions sb [confession_to_row c]) = Some e' \<longrightarrow>
      insertConfession sb c = ([ConsoleError ''Error inserting confession:'' e'], Inr False))
   \<and> (pg_error (insert_confessions sb [confession_to_row c]) = None \<longrightarrow>
      insertConfession sb c = ([], Inr True))
   \<and> (\<exists>ok. snd (insertConfession sb c) = Inr ok)
   \<and> (pg_error (update_confessions sb
          \<lparr>ud_reactions = upd_reactions u, ud_comments = upd_comments u, ud_poll_options = upd_pollOptions u\<rparr>
          rid) = Some e'' \<longrightarrow>
      updateConfession sb rid u = ([ConsoleError ''Error updating confession:'' e''], Inr False))
   \<and> (pg_error (update_confessions sb
          \<lparr>ud_reactions = upd_reactions u, ud_comments = upd_comments u, ud_poll_options = upd_pollOptions u\<rparr>
          rid) = None \<longrightarrow>
      updateConfession sb rid u = ([], Inr True))
   \<and> (\<exists>ok. snd (updateConfession sb rid u) = Inr ok)"
  by (auto simp: fetchConfessions_def insertConfession_def updateConfession_def Let_def
      split: option.splits)

theorem data_access_witness:
  "fetchConfessions supabase_down = ([ConsoleError ''Error fetching confessions:'' ''connection refused''], Inr [])
   \<and> fetchConfessions supabase_up = ([], Inr [confession0\<lparr>tags := []\<rparr>])
   \<and> (\<exists>cs. snd (fetchConfessions supabase_up) = Inr cs)
   \<and> insertConfession supabase_down confession0
       = ([ConsoleError ''Error inserting confession:'' ''connection refused''], Inr False)
   \<and> insertConfession supabase_up confession0 = ([], Inr True)
   \<and> updateConfession supabase_down ''c1'' updates0
       = ([ConsoleError ''Error updating confession:'' ''connection refused''], Inr False)
   \<and> updateConfession supabase_up ''c1'' updates0 = ([], Inr True)"
proof -
  have h: "pg_error (select_confessions supabase_down) = Some ''connection refused''"
    "pg_error (select_confessions supabase_up) = None \<and> pg_data (select_confessions supabase_up) = Some [row0]"
    "pg_error (insert_confessions supabase_down [confession_to_row confession0]) = Some ''connection refused''"
    "pg_error (insert_confessions supabase_up [confession_to_row confession0]) = None"
    "pg_error (update_confessions supabase_down
          \<lparr>ud_reactions = upd_reactions updates0, ud_comments = upd_comments updates0,
           ud_poll_options = upd_pollOptions updates0\<rparr> ''c1'') = Some ''connection refused''"
    "pg_error (update_confessions supabase_up
          \<lparr>ud_reactions = upd_reactions updates0, ud_comments = upd_comments updates0,
           ud_poll_options = upd_pollOptions updates0\<rparr> ''c1'') = None"
    by (simp_all add: supabase_down_def supabase_up_def)
  have m: "map row_to_confession [row0] = [confession0\<lparr>tags := []\<rparr>]"
    by (simp add: row_to_confession_def row0_def confession0_def truthy_string_def)
  show ?thesis
    using data_access_never_throws[of supabase_down "''connection refused''" "[row0]" confession0
        "''connection refused''" updates0 "''c1''" "''connection refused''"]
      data_access_never_throws[of supabase_up "''connection refused''" "[row0]" confession0
        "''connection refused''" updates0 "''c1''" "''connection refused''"]
      h m by simp
qed


text \<open>
  The claim as stated (the module never throws) fails for \<open>fetchConfessions\<close> on an
  answer of the client that carries neither an error nor rows: there is no check of
  \<open>data\<close> before \<open>data.map\<close>, and the promise is rejected with a \<open>TypeError\<close>.
\<close>

theorem fetch_without_rows_counterexample:
  "pg_error (select_confessions supabase_empty_answer) = None
   \<and> pg_data (select_confessions supabase_empty_answer) = None
   \<and> fetchConfessions supabase_empty_answer
       = ([], Inl (TypeError ''Cannot read properties of null (reading map)''))"
  by (simp add: supabase_empty_answer_def supabase_up_def fetchConfessions_def)

section \<open>Poll creation\<close>

lemma handleAddOption_bounds:
  "2 \<le> length (m_pollOptions st) \<and> length (m_pollOptions st) \<le> 4 \<Longrightarrow>
   2 \<le> length (m_pollOptions (handleAddOption st)) \<and> length (m_pollOptions (handleAddOption st)) \<le> 4"
  by (simp add: handleAddOption_def)

lemma modal_step_bounds:
  assumes "2 \<le> length (m_pollOptions st) \<and> length (m_pollOptions st) \<le> 4"
      and "modal_step ev st = Some st'"
  shows "2 \<le> length (m_pollOptions st') \<and> length (m_pollOptions st') \<le> 4"
proof (cases ev)
  case AddOption
  with assms show ?thesis using handleAddOption_bounds[of st] by auto
next
  case (OptionChange i v)
  with assms show ?thesis by (auto simp: handleOptionChange_def split: if_splits)
next
  case (SetPostType t)
  with assms show ?thesis by auto
next
  case (SetText t)
  with assms show ?thesis by auto
qed

lemma modal_run_bounds:
  "2 \<le> length (m_pollOptions st) \<and> length (m_pollOptions st) \<le> 4 \<Longrightarrow>
   modal_run evs st = Some st' \<Longrightarrow>
   2 \<le> length (m_pollOptions st') \<and> length (m_pollOptions st') \<le> 4"
proof (induction evs arbitrary: st)
  case Nil
  then show ?case by simp
next
  case (Cons ev evs)
  from Cons.prems(2) obtain st1 where s1: "modal_step ev st = Some st1" and r: "modal_run evs st1 = Some st'"
    by (auto split: option.splits)
  from Cons.prems(1) s1 have "2 \<le> length (m_pollOptions st1) \<and> length (m_pollOptions st1) \<le> 4"
    by (rule modal_step_bounds)
  with r show ?case using Cons.IH by blast
qed

text \<open>
  Claim C10: poll creation keeps between two and four options. The option list starts
  with two (empty) entries; \<open>handleAddOption\<close> appends an entry below four options and is
  a no-op from four on; after every run of form events from the initial state the list
  has between two and four entries; and \<open>handleSubmit\<close> returns without producing a post
  when the body text is blank, and, for a poll, when some option is blank (blank: empty
  or made of the white space that \<open>trim\<close> removes).
\<close>

theorem poll_creation_bounds:
  "m_pollOptions initialModal = [[], []]
   \<and> (4 \<le> length (m_pollOptions st) \<longrightarrow> handleAddOption st = st)
   \<and> (length (m_pollOptions st) < 4 \<longrightarrow> m_pollOptions (handleAddOption st) = m_pollOptions st @ [[]])
   \<and> (modal_run evs initialModal = Some st' \<longrightarrow>
        2 \<le> length (m_pollOptions st') \<and> length (m_pollOptions st') \<le> 4)
   \<and> ((\<forall>ch \<in> set (m_text st). is_whitespace ch) \<longrightarrow> handleSubmit analyze proceed now st = Inr None)
   \<and> (m_postType st = PollPost \<and> (\<exists>opt \<in> set (m_pollOptions st). \<forall>ch \<in> set opt. is_whitespace ch) \<longrightarrow>
        handleSubmit analyze proceed now st = Inr None)"
proof -
  have a: "m_pollOptions initialModal = [[], []]" by (simp add: initialModal_def)
  have b: "4 \<le> length (m_pollOptions st) \<longrightarrow> handleAddOption st = st"
    by (simp add: handleAddOption_def)
  have c: "length (m_pollOptions st) < 4 \<longrightarrow> m_pollOptions (handleAddOption st) = m_pollOptions st @ [[]]"
    by (simp add: handleAddOption_def)
  have d: "modal_run evs initialModal = Some st' \<longrightarrow>
        2 \<le> length (m_pollOptions st') \<and> length (m_pollOptions st') \<le> 4"
    using modal_run_bounds[of initialModal evs st'] by (simp add: initialModal_def)
  have e: "(\<forall>ch \<in> set (m_text st). is_whitespace ch) \<longrightarrow> handleSubmit analyze proceed now st = Inr None"
    by (simp add: handleSubmit_def trim_empty_iff)
  have f: "m_postType st = PollPost \<and> (\<exists>opt \<in> set (m_pollOptions st). \<forall>ch \<in> set opt. is_whitespace ch) \<longrightarrow>
        handleSubmit analyze proceed now st = Inr None"
    by (auto simp: handleSubmit_def trim_empty_iff list_ex_iff)
  show ?thesis using a b c d e f by blast
qed

theorem poll_creation_witness:
  "handleAddOption modal_poll_draft = modal_poll_draft
   \<and> m_pollOptions (handleAddOption initialModal) = [[], [], []]
   \<and> (\<exists>st'. modal_run [SetPostType PollPost, AddOption, AddOption, AddOption, OptionChange 3 (js ''milk''),
                         SetText (js ''Tea or coffee?'')] initialModal = Some st'
          \<and> length (m_pollOptions st') = 4)
   \<and> handleSubmit analyze_fallback True (\<lambda>i. 7) initialModal = Inr None
   \<and> handleSubmit analyze_fallback True (\<lambda>i. 7) modal_blank_text = Inr None
   \<and> handleSubmit analyze_fallback True (\<lambda>i. 7) modal_poll_draft = Inr None"
proof -
  let ?evs = "[SetPostType PollPost, AddOption, AddOption, AddOption, OptionChange 3 (js ''milk''),
               SetText (js ''Tea or coffee?'')]"
  let ?st = "\<lparr>m_postType = PollPost, m_text = js ''Tea or coffee?'', m_image = None, m_audio = None,
     m_video = None, m_pollOptions = [[], [], [], js ''milk'']\<rparr>"
  have h1: "4 \<le> length (m_pollOptions modal_poll_draft)" by (simp add: modal_poll_draft_def)
  have h2: "length (m_pollOptions initialModal) < 4" by (simp add: initialModal_def)
  have h3: "modal_run ?evs initialModal = Some ?st"
    by (simp add: initialModal_def handleAddOption_def handleOptionChange_def)
  have h4: "\<forall>ch \<in> set (m_text initialModal). is_whitespace ch" by (simp add: initialModal_def)
  have h5: "m_postType modal_poll_draft = PollPost
      \<and> (\<exists>opt \<in> set (m_pollOptions modal_poll_draft). \<forall>ch \<in> set opt. is_whitespace ch)"
    by (simp add: modal_poll_draft_def is_whitespace_def)
  have h6: "\<forall>ch \<in> set (m_text modal_blank_text). is_whitespace ch"
    by (simp add: modal_blank_text_def is_whitespace_def)
  have i: "m_pollOptions initialModal = [[], []]" by (simp add: initialModal_def)
  show ?thesis
    using poll_creation_bounds[of modal_poll_draft ?evs ?st analyze_fallback True "\<lambda>i. 7"]
      poll_creation_bounds[of initialModal ?evs ?st analyze_fallback True "\<lambda>i. 7"]
      poll_creation_bounds[of modal_blank_text ?evs ?st analyze_fallback True "\<lambda>i. 7"]
      h1 h2 h3 h4 h5 h6 i by simp
qed

end
